theory Spec2Isabelle
  imports Complex_Main
begin

section \<open>Python values\<close>

text \<open>
  The analyser of \<^verbatim>\<open>weather_analyzer.py\<close> works on dictionaries of numbers and
  strings. A Python string is a sequence of Unicode code points, so a string is a list of
  code points here, and every literal of the source is written out as the code points of its
  characters, with the line of the source it comes from.
\<close>

type_synonym pystr = "nat list"

text \<open>
  A number is a Python \<^verbatim>\<open>int\<close> or a Python \<^verbatim>\<open>float\<close>. The two print
  differently (\<^verbatim>\<open>str(23)\<close> is \<^verbatim>\<open>23\<close>, \<^verbatim>\<open>str(23.0)\<close> is
  \<^verbatim>\<open>23.0\<close>) and subtract differently (ints exactly, floats with rounding), so the
  constructor is kept. A float is an IEEE 754 double; \<open>PFloat x\<close> is the double whose exact
  value is the real number \<open>x\<close>.
\<close>

datatype pynum = PInt int | PFloat real

fun num_val :: "pynum \<Rightarrow> real" where
  "num_val (PInt i) = of_int i"
| "num_val (PFloat x) = x"

text \<open>
  Python rounds to the nearest value and, at an exact tie, to the even neighbour:
  \<^verbatim>\<open>round(2.5)\<close> is 2 and \<^verbatim>\<open>round(0.25, 1)\<close> is 0.2.
\<close>

definition round_half_even :: "real \<Rightarrow> int" where
  "round_half_even x =
     (let f = \<lfloor>x\<rfloor>; d = x - of_int f
      in if d < 1 / 2 then f else if 1 / 2 < d then f + 1 else if even f then f else f + 1)"

text \<open>
  Every float operation returns the double nearest to the exact result, a tie going to the
  double with the even significand. A double has a significand of 53 bits: when \<open>\<bar>x\<bar>\<close> lies
  between \<open>2 powi e\<close> and \<open>2 powi (e + 1)\<close>, the doubles around \<open>x\<close> are the multiples of
  \<open>2 powi (e - 52)\<close>, and \<open>rnd x\<close> is the nearest of them. What this leaves out: overflow
  to infinity (from \<open>2 powi 1024\<close> on), the subnormal numbers (below \<open>2 powi (- 1022)\<close>),
  NaN, and the negative zero. An int in an operation with a float is converted to a float
  first; that is exact for every int of magnitude up to \<open>2 powi 53\<close>, and the model takes it
  to be exact.
\<close>

definition float_exp :: "real \<Rightarrow> int" where
  "float_exp x = \<lfloor>log 2 \<bar>x\<bar>\<rfloor>"

definition rnd :: "real \<Rightarrow> real" where
  "rnd x =
     (if x = 0 then 0
      else (let u = 2 powi (float_exp x - 52)
            in of_int (round_half_even (x / u)) * u))"

text \<open>A float written as a decimal in the program or in a JSON file is the nearest double.\<close>

definition py_float :: "real \<Rightarrow> pynum" where
  "py_float d = PFloat (rnd d)"

text \<open>\<^verbatim>\<open>a - b\<close>: exact and an int when both are ints, a rounded float otherwise.\<close>

fun num_sub :: "pynum \<Rightarrow> pynum \<Rightarrow> pynum" where
  "num_sub (PInt a) (PInt b) = PInt (a - b)"
| "num_sub a b = PFloat (rnd (num_val a - num_val b))"

text \<open>\<^verbatim>\<open>abs(a)\<close> keeps the type of its argument.\<close>

fun py_abs :: "pynum \<Rightarrow> pynum" where
  "py_abs (PInt a) = PInt \<bar>a\<bar>"
| "py_abs (PFloat x) = PFloat \<bar>x\<bar>"

text \<open>
  \<^verbatim>\<open>round(a, 1)\<close>: an int is returned as it is; for a float, the exact value is rounded
  to one decimal, and the result is the double nearest to that decimal.
\<close>

fun py_round1 :: "pynum \<Rightarrow> pynum" where
  "py_round1 (PInt a) = PInt a"
| "py_round1 (PFloat x) = PFloat (rnd (of_int (round_half_even (x * 10)) / 10))"

subsection \<open>Numbers as text\<close>

text \<open>The decimal digits of a natural number, as code points (48 is the digit 0).\<close>

fun digits_of :: "nat \<Rightarrow> pystr" where
  "digits_of n = (if n < 10 then [48 + n] else digits_of (n div 10) @ [48 + n mod 10])"

declare digits_of.simps [simp del]

definition str_int :: "int \<Rightarrow> pystr" where
  "str_int i = (if i < 0 then 45 # digits_of (nat (- i)) else digits_of (nat i))"

text \<open>
  The digits after the decimal point of a fraction \<open>0 \<le> f < 1\<close>: at least one digit, then
  as many as the fraction needs, at most \<open>k + 1\<close>.
\<close>

fun frac_digits :: "nat \<Rightarrow> real \<Rightarrow> pystr" where
  "frac_digits k f =
     (let d = \<lfloor>f * 10\<rfloor>; r = f * 10 - of_int d
      in (48 + nat d) # (case k of 0 \<Rightarrow> [] | Suc j \<Rightarrow> if r = 0 then [] else frac_digits j r))"

declare frac_digits.simps [simp del]

text \<open>A non-negative decimal in positional notation, with at least one digit after the point.\<close>

definition str_decimal :: "real \<Rightarrow> pystr" where
  "str_decimal d = digits_of (nat \<lfloor>d\<rfloor>) @ [46] @ frac_digits 21 (d - of_int \<lfloor>d\<rfloor>)"

text \<open>
  \<^verbatim>\<open>str(x)\<close> of a float prints the shortest decimal that reads back as \<open>x\<close>, and the one
  nearest to \<open>x\<close> when there are several: \<^verbatim>\<open>23.456\<close>, \<^verbatim>\<open>80.0\<close>,
  \<^verbatim>\<open>10.000000000000002\<close>. \<open>shortest_decimal\<close> looks for it among the decimals of 1, 2,
  ... 17 significant digits, where \<open>s\<close> is the unit of the last digit: of the two
  neighbours of \<open>x\<close> with that many digits, it takes the nearer one that rounds to \<open>x\<close>.
  Seventeen digits always suffice. Python prints a float of magnitude from \<open>10 powi 16\<close>
  on, or below \<open>10 powi (- 4)\<close> and not zero, with an exponent; that notation is left out.
\<close>

definition dec_exp :: "real \<Rightarrow> int" where
  "dec_exp x = \<lfloor>log 10 \<bar>x\<bar>\<rfloor>"

fun shortest_decimal :: "nat \<Rightarrow> real \<Rightarrow> real \<Rightarrow> real" where
  "shortest_decimal k s x =
     (let lo = of_int \<lfloor>x / s\<rfloor> * s; hi = lo + s
      in if rnd lo = x \<and> (rnd hi \<noteq> x \<or> x - lo \<le> hi - x) then lo
         else if rnd hi = x then hi
         else (case k of 0 \<Rightarrow> x | Suc j \<Rightarrow> shortest_decimal j (s / 10) x))"

declare shortest_decimal.simps [simp del]

definition str_float :: "real \<Rightarrow> pystr" where
  "str_float x =
     (if x < 0 then [45] else [])
       @ str_decimal (shortest_decimal 16 (10 powi dec_exp x) \<bar>x\<bar>)"

fun py_str :: "pynum \<Rightarrow> pystr" where
  "py_str (PInt i) = str_int i"
| "py_str (PFloat x) = str_float x"

text \<open>
  The format \<^verbatim>\<open>.1f\<close> (and \<^verbatim>\<open>+.1f\<close> when \<open>show_plus\<close> is set) prints the exact value of
  a float (or of an int, converted) rounded to one decimal: a sign, the integer digits, the
  point and one digit. The format \<^verbatim>\<open>.0f\<close> prints the value rounded to an integer,
  without a point.
\<close>

definition fmt_sign :: "bool \<Rightarrow> real \<Rightarrow> pystr" where
  "fmt_sign show_plus x = (if x < 0 then [45] else if show_plus then [43] else [])"

definition fmt_f1 :: "bool \<Rightarrow> real \<Rightarrow> pystr" where
  "fmt_f1 show_plus x =
     (let q = nat (round_half_even (\<bar>x\<bar> * 10))
      in fmt_sign show_plus x @ digits_of (q div 10) @ [46, 48 + q mod 10])"

definition fmt_f0 :: "real \<Rightarrow> pystr" where
  "fmt_f0 x = fmt_sign False x @ digits_of (nat (round_half_even \<bar>x\<bar>))"

subsection \<open>Strings\<close>

text \<open>\<^verbatim>\<open>sub in s\<close>: \<open>sub\<close> occurs in \<open>s\<close> as a contiguous piece.\<close>

fun starts_with :: "pystr \<Rightarrow> pystr \<Rightarrow> bool" where
  "starts_with [] s = True"
| "starts_with (c # cs) [] = False"
| "starts_with (c # cs) (d # ds) = (c = d \<and> starts_with cs ds)"

fun py_in :: "pystr \<Rightarrow> pystr \<Rightarrow> bool" where
  "py_in sub [] = (sub = [])"
| "py_in sub (c # cs) = (starts_with sub (c # cs) \<or> py_in sub cs)"

text \<open>\<^verbatim>\<open>sep.join(xs)\<close>.\<close>

fun py_join :: "pystr \<Rightarrow> pystr list \<Rightarrow> pystr" where
  "py_join sep [] = []"
| "py_join sep [x] = x"
| "py_join sep (x # y # ys) = x @ sep @ py_join sep (y # ys)"

subsection \<open>Errors and dictionaries\<close>

text \<open>
  The exceptions the analyser can raise: a missing key, \<^verbatim>\<open>statistics.mean\<close> or
  \<^verbatim>\<open>statistics.stdev\<close> on too few data points, and a malformed format specifier.
\<close>

datatype py_error = KeyError string | StatisticsError | ValueError

text \<open>An exception ends the computation: the first error is the result.\<close>

fun ebind :: "py_error + 'a \<Rightarrow> ('a \<Rightarrow> py_error + 'b) \<Rightarrow> py_error + 'b" where
  "ebind (Inl e) f = Inl e"
| "ebind (Inr x) f = f x"

text \<open>
  A dictionary with known keys is a record of optional fields. \<^verbatim>\<open>d[k]\<close> raises
  \<^verbatim>\<open>KeyError\<close> when the key is absent, \<^verbatim>\<open>d.get(k, default)\<close> gives the default.
\<close>

fun dict_item :: "string \<Rightarrow> 'a option \<Rightarrow> py_error + 'a" where
  "dict_item k None = Inl (KeyError k)"
| "dict_item k (Some v) = Inr v"

fun dict_get :: "'a option \<Rightarrow> 'a \<Rightarrow> 'a" where
  "dict_get None d = d"
| "dict_get (Some v) d = v"

subsection \<open>The statistics module\<close>

fun is_int :: "pynum \<Rightarrow> bool" where
  "is_int (PInt i) = True"
| "is_int (PFloat x) = False"

fun int_of :: "pynum \<Rightarrow> int" where
  "int_of (PInt i) = i"
| "int_of (PFloat x) = \<lfloor>x\<rfloor>"

text \<open>
  \<^verbatim>\<open>statistics.mean\<close> raises on no data. It sums the data exactly, as fractions. The
  mean of ints is an int when it is whole; otherwise, and for data with a float in it, the
  mean is the double nearest to the exact mean.
\<close>

definition statistics_mean :: "pynum list \<Rightarrow> py_error + pynum" where
  "statistics_mean xs =
     (if xs = [] then Inl StatisticsError
      else if list_all is_int xs then
        (let s = sum_list (map int_of xs); n = int (length xs)
         in if s mod n = 0 then Inr (PInt (s div n))
            else Inr (PFloat (rnd (of_int s / of_int n))))
      else Inr (PFloat (rnd (sum_list (map num_val xs) / real (length xs)))))"

text \<open>
  \<^verbatim>\<open>statistics.stdev\<close>, the sample standard deviation, raises on fewer than two data
  points. It returns the double nearest to the square root of the exact sample variance (as
  Python 3.11 computes it).
\<close>

definition statistics_stdev :: "pynum list \<Rightarrow> py_error + pynum" where
  "statistics_stdev xs =
     (if length xs < 2 then Inl StatisticsError
      else
        (let n = real (length xs); m = sum_list (map num_val xs) / n
         in Inr (PFloat (rnd (sqrt (sum_list (map (\<lambda>x. (num_val x - m)\<^sup>2) xs) / (n - 1)))))))"

subsection \<open>The clock\<close>

text \<open>
  \<^verbatim>\<open>format_report\<close> reads the clock with \<^verbatim>\<open>datetime.now()\<close>. The reading is an
  input of the model, and \<open>strftime\<close> is the format \<^verbatim>\<open>%Y-%m-%d %H:%M:%S\<close>
  of the source: the year in four digits, the other fields in two.
\<close>

record datetime =
  year :: nat
  month :: nat
  day :: nat
  hour :: nat
  minute :: nat
  second :: nat

definition pad2 :: "nat \<Rightarrow> pystr" where
  "pad2 n = (if n < 10 then 48 # digits_of n else digits_of n)"

definition pad4 :: "nat \<Rightarrow> pystr" where
  "pad4 n = replicate (4 - length (digits_of n)) 48 @ digits_of n"

definition strftime :: "datetime \<Rightarrow> pystr" where
  "strftime t =
     pad4 (year t) @ [45] @ pad2 (month t) @ [45] @ pad2 (day t) @ [32]
       @ pad2 (hour t) @ [58] @ pad2 (minute t) @ [58] @ pad2 (second t)"

section \<open>The text literals of the source\<close>

text \<open>Line 67: trend label "stable"\<close>

definition s_stable :: pystr where
  "s_stable = [31283, 23450]"

text \<open>Line 69: trend label "significant warming"\<close>

definition s_sig_rise :: pystr where
  "s_sig_rise = [26174, 33879, 21319, 28201]"

text \<open>Line 69: trend label "significant cooling"\<close>

definition s_sig_fall :: pystr where
  "s_sig_fall = [26174, 33879, 38477, 28201]"

text \<open>Line 71: trend label "slight warming"\<close>

definition s_slight_rise :: pystr where
  "s_slight_rise = [23567, 24133, 21319, 28201]"

text \<open>Line 71: trend label "slight cooling"\<close>

definition s_slight_fall :: pystr where
  "s_slight_fall = [23567, 24133, 38477, 28201]"

text \<open>Line 85: volatility label, the ASCII text high\<close>

definition s_high :: pystr where
  "s_high = [104, 105, 103, 104]"

text \<open>Line 85: volatility label, the ASCII text normal\<close>

definition s_normal :: pystr where
  "s_normal = [110, 111, 114, 109, 97, 108]"

text \<open>Line 95: the single character "rain"\<close>

definition s_rain :: pystr where
  "s_rain = [38632]"

text \<open>Line 98: rain trend "little rain"\<close>

definition s_little_rain :: pystr where
  "s_little_rain = [23569, 38632]"

text \<open>Line 100: rain trend "rain very likely"\<close>

definition s_likely_rain :: pystr where
  "s_likely_rain = [22823, 27010, 29575, 38477, 38632]"

text \<open>Line 102: rain trend "rain possible"\<close>

definition s_possible_rain :: pystr where
  "s_possible_rain = [21487, 33021, 38477, 38632]"

text \<open>Line 108: default weather description "unknown"\<close>

definition s_unknown :: pystr where
  "s_unknown = [26410, 30693]"

text \<open>Line 125: comfort level "comfortable"\<close>

definition s_comfortable :: pystr where
  "s_comfortable = [33298, 36866]"

text \<open>Line 127: comfort level "fairly comfortable"\<close>

definition s_fairly_comfortable :: pystr where
  "s_fairly_comfortable = [36739, 33298, 36866]"

text \<open>Line 129: comfort level "rather cold"\<close>

definition s_cold :: pystr where
  "s_cold = [20559, 20919]"

text \<open>Line 131: comfort level "rather hot"\<close>

definition s_hot :: pystr where
  "s_hot = [20559, 28909]"

text \<open>Line 146: heat warning, text before the placeholder\<close>

definition hot_warning_pre :: pystr where
  "hot_warning_pre = [9888, 65039, 32, 39640, 28201, 39044, 35686, 65306, 26126, 22825, 26368,
     39640, 28201, 24230, 23558, 36798, 21040]"

text \<open>Line 146: heat warning, text after the placeholder\<close>

definition hot_warning_post :: pystr where
  "hot_warning_post = [176, 67, 65292, 35831, 27880, 24847, 38450, 26257, 38477, 28201]"

text \<open>Line 149: cold warning, text before the placeholder\<close>

definition cold_warning_pre :: pystr where
  "cold_warning_pre = [9888, 65039, 32, 20302, 28201, 39044, 35686, 65306, 26126, 22825, 26368,
     20302, 28201, 24230]"

text \<open>Line 149: cold warning, text after the placeholder\<close>

definition cold_warning_post :: pystr where
  "cold_warning_post = [176, 67, 65292, 27880, 24847, 20445, 26262, 38450, 23506]"

text \<open>Line 154: diurnal range warning, text before the placeholder\<close>

definition diff_warning_pre :: pystr where
  "diff_warning_pre = [9888, 65039, 32, 28201, 24046, 36739, 22823, 65306, 26089, 26202, 28201,
     24046, 36798]"

text \<open>Line 154: diurnal range warning, text after the placeholder\<close>

definition diff_warning_post :: pystr where
  "diff_warning_post = [176, 67, 65292, 27880, 24847, 36866, 26102, 22686, 20943, 34915, 29289]"

text \<open>Line 158: rain warning, text before the placeholder\<close>

definition rain_warning_pre :: pystr where
  "rain_warning_pre = [9888, 65039, 32, 38477, 38632, 39044, 35686, 65306, 26126, 22825, 38477,
     38632, 27010, 29575]"

text \<open>Line 158: rain warning, text after the placeholder\<close>

definition rain_warning_post :: pystr where
  "rain_warning_post = [37, 65292, 35760, 24471, 24102, 20254]"

text \<open>Line 165: direction "higher"\<close>

definition s_up :: pystr where
  "s_up = [21319, 39640]"

text \<open>Line 165: direction "lower"\<close>

definition s_down :: pystr where
  "s_down = [38477, 20302]"

text \<open>Line 166: abrupt change warning, text before the direction\<close>

definition abrupt_warning_pre :: pystr where
  "abrupt_warning_pre = [9888, 65039, 32, 27668, 28201, 21095, 21464, 65306, 36739, 20170, 22825]"

text \<open>Line 166: abrupt change warning, text after the number\<close>

definition abrupt_warning_post :: pystr where
  "abrupt_warning_post = [176, 67, 65292, 35831, 27880, 24847, 36523, 20307, 36866, 24212]"

text \<open>Line 211: wardrobe of temperature band 1\<close>

definition clothing_band1 :: pystr where
  "clothing_band1 = [129509, 32, 21402, 32701, 32466, 26381, 32, 43, 32, 27611, 34915, 32, 43, 32,
     20445, 26262, 20869, 34915]"

text \<open>Line 213: wardrobe of temperature band 2\<close>

definition clothing_band2 :: pystr where
  "clothing_band2 = [129509, 32, 32701, 32466, 26381, 47, 21402, 26825, 34915, 32, 43, 32, 27611,
     34915]"

text \<open>Line 215: wardrobe of temperature band 3\<close>

definition clothing_band3 :: pystr where
  "clothing_band3 = [129509, 32, 21402, 22806, 22871, 47, 22823, 34915, 32, 43, 32, 27611, 34915]"

text \<open>Line 217: wardrobe of temperature band 4\<close>

definition clothing_band4 :: pystr where
  "clothing_band4 = [129509, 32, 22841, 20811, 47, 39118, 34915, 32, 43, 32, 21355, 34915, 47,
     27611, 34915]"

text \<open>Line 219: wardrobe of temperature band 5\<close>

definition clothing_band5 :: pystr where
  "clothing_band5 = [128084, 32, 22806, 22871, 32, 43, 32, 38271, 34966]"

text \<open>Line 221: wardrobe of temperature band 6\<close>

definition clothing_band6 :: pystr where
  "clothing_band6 = [128085, 32, 38271, 34966, 34924, 34923, 47, 21355, 34915]"

text \<open>Line 223: wardrobe of temperature band 7\<close>

definition clothing_band7 :: pystr where
  "clothing_band7 = [128085, 32, 30701, 34966, 32, 43, 32, 34180, 22806, 22871, 65288, 22791,
     29992, 65289]"

text \<open>Line 225: wardrobe of temperature band 8\<close>

definition clothing_band8 :: pystr where
  "clothing_band8 = [128085, 32, 30701, 34966, 32, 43, 32, 30701, 35044]"

text \<open>Line 231: midday tip, range at least 12 and maximum at least 20, before the number\<close>

definition tip12_warm_pre :: pystr where
  "tip12_warm_pre = [20013, 21320, 21487, 36798]"

text \<open>Line 231: the same tip, after the number\<close>

definition tip12_warm_post :: pystr where
  "tip12_warm_post = [176, 67, 65292, 21487, 33073, 33267, 38271, 34966, 25110, 30701, 34966]"

text \<open>Line 233: midday tip, range at least 12 and maximum at least 15, before the number\<close>

definition tip12_mild_pre :: pystr where
  "tip12_mild_pre = [20013, 21320, 21487, 36798]"

text \<open>Line 233: the same tip, after the number\<close>

definition tip12_mild_post :: pystr where
  "tip12_mild_post = [176, 67, 65292, 21487, 33073, 22806, 22871]"

text \<open>Line 235: midday tip, range at least 12 and maximum below 15, before the number\<close>

definition tip12_cool_pre :: pystr where
  "tip12_cool_pre = [20013, 21320, 21487, 36798]"

text \<open>Line 235: the same tip, after the number\<close>

definition tip12_cool_post :: pystr where
  "tip12_cool_post = [176, 67, 65292, 21487, 36866, 24403, 20943, 23569, 34915, 29289]"

text \<open>Line 237: layered clothing text, first literal part\<close>

definition onion_a :: pystr where
  "onion_a = [42, 42, 26089, 26202, 42, 42, 65306]"

text \<open>Line 237: layered clothing text, second literal part\<close>

definition onion_b :: pystr where
  "onion_b = [10, 42, 42, 28201, 24046, 25552, 31034, 42, 42, 65306, 9888, 65039, 32, 28201,
     24046]"

text \<open>Line 237: layered clothing text, third literal part\<close>

definition onion_c :: pystr where
  "onion_c = [176, 67, 65292]"

text \<open>Line 237: layered clothing text, last literal part\<close>

definition onion_d :: pystr where
  "onion_d = [65292, 24314, 35758, 27915, 33905, 24335, 31359, 34915]"

text \<open>Line 242: midday tip, range at least 8 and maximum at least 20, before the number\<close>

definition tip8_warm_pre :: pystr where
  "tip8_warm_pre = [20013, 21320]"

text \<open>Line 242: the same tip, after the number\<close>

definition tip8_warm_post :: pystr where
  "tip8_warm_post = [176, 67, 36739, 26262, 65292, 21487, 20943, 23569, 22806, 22871]"

text \<open>Line 244: midday tip, range at least 8 and maximum below 20, before the number\<close>

definition tip8_cool_pre :: pystr where
  "tip8_cool_pre = [20013, 21320]"

text \<open>Line 244: the same tip, after the number\<close>

definition tip8_cool_post :: pystr where
  "tip8_cool_post = [176, 67, 65292, 21487, 36866, 24403, 20943, 34915]"

text \<open>Line 246: clothing text with a range hint, first literal part\<close>

definition range_a :: pystr where
  "range_a = [10, 128161, 32, 28201, 24046]"

text \<open>Line 246: clothing text with a range hint, second literal part\<close>

definition range_b :: pystr where
  "range_b = [176, 67, 65292]"

text \<open>Line 255: activity advice, rain very likely\<close>

definition activity_indoor :: pystr where
  "activity_indoor = [9748, 32, 19981, 36866, 23452, 25143, 22806, 27963, 21160, 65292, 24314,
     35758, 23460, 20869, 36816, 21160, 25110, 20241, 24687]"

text \<open>Line 256: the single character "snow"\<close>

definition s_snow :: pystr where
  "s_snow = [38634]"

text \<open>Line 257: activity advice, rain or snow in the description\<close>

definition activity_limited :: pystr where
  "activity_limited = [127968, 32, 25143, 22806, 27963, 21160, 21463, 38480, 65292, 21487, 36873,
     25321, 23460, 20869, 20581, 36523, 12289, 30475, 20070, 31561]"

text \<open>Line 259: activity advice, comfortable\<close>

definition activity_comfortable :: pystr where
  "activity_comfortable = [127919, 32, 22825, 27668, 23452, 20154, 65292, 36866, 21512, 25143,
     22806, 36816, 21160, 12289, 37066, 28216, 12289, 25955, 27493]"

text \<open>Line 261: activity advice, fairly comfortable\<close>

definition activity_fairly :: pystr where
  "activity_fairly = [128694, 32, 36866, 21512, 36866, 24230, 25143, 22806, 27963, 21160, 65292,
     36991, 20813, 21095, 28872, 36816, 21160]"

text \<open>Line 263: activity advice, rather hot\<close>

definition activity_hot :: pystr where
  "activity_hot = [127777, 65039, 32, 22825, 27668, 36739, 28909, 65292, 25143, 22806, 27963,
     21160, 35831, 36873, 25321, 26089, 26202, 26102, 27573, 65292, 27880, 24847, 38450, 26257]"

text \<open>Line 265: activity advice, rather cold\<close>

definition activity_cold :: pystr where
  "activity_cold = [10052, 65039, 32, 22825, 27668, 36739, 20919, 65292, 25143, 22806, 27963,
     21160, 35831, 20570, 22909, 20445, 26262, 25514, 26045]"

text \<open>Line 267: activity advice, fallback\<close>

definition activity_default :: pystr where
  "activity_default = [128694, 32, 21487, 36866, 24230, 25143, 22806, 27963, 21160]"

text \<open>Line 273: the word "cooling" looked for in the trend label\<close>

definition s_cooling :: pystr where
  "s_cooling = [38477, 28201]"

text \<open>Line 274: health clause for a falling trend\<close>

definition health_cooling :: pystr where
  "health_cooling = [27668, 28201, 19979, 38477, 65292, 27880, 24847, 39044, 38450, 24863, 20882]"

text \<open>Line 275: the word "warming" looked for in the trend label\<close>

definition s_warming :: pystr where
  "s_warming = [21319, 28201]"

text \<open>Line 276: health clause for a rising trend\<close>

definition health_warming :: pystr where
  "health_warming = [27668, 28201, 19978, 21319, 65292, 27880, 24847, 34917, 20805, 27700, 20998]"

text \<open>Line 279: health clause for a large diurnal range\<close>

definition health_range :: pystr where
  "health_range = [28201, 24046, 36739, 22823, 65292, 24515, 34880, 31649, 30142, 30149, 24739,
     32773, 35831, 27880, 24847]"

text \<open>Line 282: health clause for a cold morning\<close>

definition health_morning :: pystr where
  "health_morning = [26089, 26216, 27668, 28201, 20302, 65292, 26216, 32451, 35831, 20570, 22909,
     20445, 26262]"

text \<open>Line 285: health clause for a hot day\<close>

definition health_heat :: pystr where
  "health_heat = [27668, 28201, 36739, 39640, 65292, 36991, 20813, 38271, 26102, 38388, 25143,
     22806, 26292, 26194]"

text \<open>Line 287: prefix of the health text\<close>

definition health_prefix :: pystr where
  "health_prefix = [128138, 32]"

text \<open>Line 287: separator of the health clauses\<close>

definition health_sep :: pystr where
  "health_sep = [65307]"

text \<open>Line 287: health text when no clause applies\<close>

definition health_default :: pystr where
  "health_default = [128138, 32, 22825, 27668, 36866, 23452, 65292, 27880, 24847, 35268, 24459,
     20316, 24687]"

text \<open>Line 293: trend label "no historical data to compare"\<close>

definition s_no_history :: pystr where
  "s_no_history = [26242, 26080, 21382, 21490, 25968, 25454, 23545, 27604]"

text \<open>Line 300: the text "no suggestion yet"\<close>

definition s_no_suggestion :: pystr where
  "s_no_suggestion = [26242, 26080, 24314, 35758]"

text \<open>Line 301: the text "keep an eye on the weather"\<close>

definition s_watch_weather :: pystr where
  "s_watch_weather = [27880, 24847, 20851, 27880, 22825, 27668, 21464, 21270]"

text \<open>Line 315: report header, literal part 1\<close>

definition header_a :: pystr where
  "header_a = [35, 32, 127780, 65039, 32, 21335, 20140, 26126, 26085, 22825, 27668, 25773, 25253,
     10, 10, 35, 35, 32, 128197, 32, 22522, 26412, 20449, 24687, 10, 42, 42, 26085, 26399, 42,
     42, 58, 32, 32]"

text \<open>Line 315: report header, literal part 2\<close>

definition header_b :: pystr where
  "header_b = [32, 32, 10, 42, 42, 22825, 27668, 42, 42, 58, 32]"

text \<open>Line 315: report header, literal part 3\<close>

definition header_c :: pystr where
  "header_c = [32, 32, 10, 42, 42, 28201, 24230, 42, 42, 58, 32]"

text \<open>Line 315: report header, literal part 4\<close>

definition header_d :: pystr where
  "header_d = [176, 67, 32, 126, 32]"

text \<open>Line 315: report header, literal part 5\<close>

definition header_e :: pystr where
  "header_e = [176, 67, 32, 32, 10, 42, 42, 28287, 24230, 42, 42, 58, 32]"

text \<open>Line 315: report header, literal part 6\<close>

definition header_f :: pystr where
  "header_f = [37, 32, 32, 10, 42, 42, 39118, 21147, 42, 42, 58, 32]"

text \<open>Line 315: report header, literal part 7\<close>

definition header_g :: pystr where
  "header_g = [10, 10]"

text \<open>Line 328: temperature trend section, literal part 1\<close>

definition trend_sec_a :: pystr where
  "trend_sec_a = [35, 35, 32, 128202, 32, 28201, 24230, 36235, 21183, 20998, 26512, 10, 42, 42,
     36235, 21183, 42, 42, 58, 32]"

text \<open>Line 328: temperature trend section, literal part 2\<close>

definition trend_sec_b :: pystr where
  "trend_sec_b = [32, 32, 10, 42, 42, 36739, 36817, 26399, 24179, 22343, 28201, 24230, 42, 42, 58,
     32, 26368, 39640, 28201]"

text \<open>Line 328: temperature trend section, literal part 3\<close>

definition trend_sec_c :: pystr where
  "trend_sec_c = [176, 67, 65292, 26368, 20302, 28201]"

text \<open>Line 328: temperature trend section, literal part 4\<close>

definition trend_sec_d :: pystr where
  "trend_sec_d = [176, 67, 32, 32, 10, 42, 42, 26089, 26202, 28201, 24046, 42, 42, 58, 32]"

text \<open>Line 328: temperature trend section, literal part 5\<close>

definition trend_sec_e :: pystr where
  "trend_sec_e = [176, 67, 32, 32, 10, 42, 42, 36817, 26399, 24179, 22343, 28201, 24046, 42, 42,
     58, 32]"

text \<open>Line 328: temperature trend section, literal part 6\<close>

definition trend_sec_f :: pystr where
  "trend_sec_f = [176, 67, 32, 32, 10, 10]"

text \<open>Line 338: precipitation section, literal part 1\<close>

definition precip_sec_a :: pystr where
  "precip_sec_a = [35, 35, 32, 127783, 65039, 32, 38477, 27700, 20998, 26512, 10, 42, 42, 38477,
     27700, 27010, 29575, 42, 42, 58, 32]"

text \<open>Line 338: precipitation section, literal part 2\<close>

definition precip_sec_b :: pystr where
  "precip_sec_b = [37, 32, 32, 10, 42, 42, 36235, 21183, 42, 42, 58, 32]"

text \<open>Line 338: precipitation section, literal part 3\<close>

definition precip_sec_c :: pystr where
  "precip_sec_c = [32, 32, 10, 42, 42, 36817, 55, 22825, 38477, 38632, 42, 42, 58, 32, 32]"

text \<open>Line 338: precipitation section, literal part 4\<close>

definition precip_sec_d :: pystr where
  "precip_sec_d = [22825, 32, 32, 10, 10]"

text \<open>Line 347: comfort section, literal part 1\<close>

definition comfort_sec_a :: pystr where
  "comfort_sec_a = [35, 35, 32, 127777, 65039, 32, 20307, 24863, 33298, 36866, 24230, 10, 42, 42,
     20307, 24863, 28201, 24230, 42, 42, 58, 32]"

text \<open>Line 347: comfort section, literal part 2\<close>

definition comfort_sec_b :: pystr where
  "comfort_sec_b = [176, 67, 32, 32, 10, 42, 42, 33298, 36866, 31561, 32423, 42, 42, 58, 32]"

text \<open>Line 347: comfort section, literal part 3\<close>

definition comfort_sec_c :: pystr where
  "comfort_sec_c = [32, 32, 10, 10]"

text \<open>Line 355: heading of the warnings section\<close>

definition warnings_heading :: pystr where
  "warnings_heading = [35, 35, 32, 9888, 65039, 32, 22825, 27668, 39044, 35686, 10]"

text \<open>Line 357: the two line breaks after each warning\<close>

definition warning_end :: pystr where
  "warning_end = [10, 10]"

text \<open>Line 361: suggestions section, literal part 1\<close>

definition sugg_sec_a :: pystr where
  "sugg_sec_a = [35, 35, 32, 128161, 32, 29983, 27963, 24314, 35758, 10, 10, 42, 42, 31359, 34915,
     24314, 35758, 42, 42, 32, 32, 10]"

text \<open>Line 361: suggestions section, literal part 2\<close>

definition sugg_sec_b :: pystr where
  "sugg_sec_b = [10, 10, 42, 42, 27963, 21160, 24314, 35758, 42, 42, 32, 32, 10]"

text \<open>Line 361: suggestions section, literal part 3\<close>

definition sugg_sec_c :: pystr where
  "sugg_sec_c = [10, 10, 42, 42, 20581, 24247, 25552, 31034, 42, 42, 32, 32, 10]"

text \<open>Line 361: suggestions section, literal part 4\<close>

definition sugg_sec_d :: pystr where
  "sugg_sec_d = [10, 10]"

text \<open>Line 374: footer, text before the generation time\<close>

definition footer_a :: pystr where
  "footer_a = [45, 45, 45, 10, 42, 25968, 25454, 26469, 28304, 58, 32, 21644, 39118, 22825, 27668,
     42, 32, 32, 10, 42, 29983, 25104, 26102, 38388, 58, 32]"

text \<open>Line 374: footer, text after the generation time\<close>

definition footer_b :: pystr where
  "footer_b = [42, 10]"

section \<open>The data of the analyser\<close>

text \<open>
  A forecast and a historical record are dictionaries with the same keys; any key may be
  absent. \<^verbatim>\<open>main.py\<close> builds tomorrow's forecast with int temperatures and humidity
  and a float precipitation value; the history is read back from a JSON file.
\<close>

record forecast =
  date :: "pystr option"
  temp_max :: "pynum option"
  temp_min :: "pynum option"
  weather :: "pystr option"
  humidity :: "pynum option"
  precipitation_probability :: "pynum option"
  wind_scale :: "pystr option"
  wind_dir :: "pystr option"

text \<open>The section \<^verbatim>\<open>analysis\<close> of the configuration; every threshold has a default.\<close>

record analysis_config =
  temp_change_threshold :: "pynum option"
  temp_diff_threshold :: "pynum option"
  hot_warning_temp :: "pynum option"
  cold_warning_temp :: "pynum option"

text \<open>
  The dictionary returned by \<^verbatim>\<open>_analyze_temperature_trend\<close>. It is empty when no
  historical record has a maximum, holds only \<^verbatim>\<open>trend\<close> in the report without
  history, and all nine keys otherwise.
\<close>

record trend_dict =
  tt_trend :: "pystr option"
  tt_max_temp_change :: "pynum option"
  tt_min_temp_change :: "pynum option"
  tt_avg_max_temp :: "pynum option"
  tt_avg_min_temp :: "pynum option"
  tt_tomorrow_diff :: "pynum option"
  tt_avg_hist_diff :: "pynum option"
  tt_volatility :: "pystr option"
  tt_temp_std :: "pynum option"

definition empty_trend :: trend_dict where
  "empty_trend =
     \<lparr>tt_trend = None, tt_max_temp_change = None, tt_min_temp_change = None,
      tt_avg_max_temp = None, tt_avg_min_temp = None, tt_tomorrow_diff = None,
      tt_avg_hist_diff = None, tt_volatility = None, tt_temp_std = None\<rparr>"

text \<open>A dictionary is true in a condition when it has a key.\<close>

definition trend_nonempty :: "trend_dict \<Rightarrow> bool" where
  "trend_nonempty tt =
     (tt_trend tt \<noteq> None \<or> tt_max_temp_change tt \<noteq> None \<or> tt_min_temp_change tt \<noteq> None
      \<or> tt_avg_max_temp tt \<noteq> None \<or> tt_avg_min_temp tt \<noteq> None \<or> tt_tomorrow_diff tt \<noteq> None
      \<or> tt_avg_hist_diff tt \<noteq> None \<or> tt_volatility tt \<noteq> None \<or> tt_temp_std tt \<noteq> None)"

record precip_dict =
  pr_probability :: pynum
  pr_trend :: pystr
  pr_recent_rainy_days :: int
  pr_weather_desc :: pystr

record comfort_dict =
  cf_apparent_temp :: pynum
  cf_comfort_level :: pystr
  cf_humidity :: pynum
  cf_temp_diff :: pynum

record suggestion_dict =
  clothing :: pystr
  activity :: pystr
  health :: pystr

text \<open>
  The analysis. The keys \<^verbatim>\<open>precipitation_trend\<close> and \<^verbatim>\<open>comfort_analysis\<close> are
  absent from the report without history. \<^verbatim>\<open>suggestions\<close> is the empty dictionary
  until the suggestions are generated: \<open>None\<close> stands for the empty dictionary, which the
  readers of the analysis treat as an absent key.
\<close>

record analysis =
  tomorrow :: forecast
  temperature_trend :: trend_dict
  precipitation_trend :: "precip_dict option"
  comfort_analysis :: "comfort_dict option"
  weather_warnings :: "pystr list"
  suggestions :: "suggestion_dict option"

section \<open>The analyser\<close>

subsection \<open>\<^verbatim>\<open>_analyze_temperature_trend\<close>\<close>

text \<open>Lines 67 to 71: the label of the change of the maximum against the mean.\<close>

definition trend_label :: "analysis_config \<Rightarrow> pynum \<Rightarrow> pystr" where
  "trend_label cfg max_temp_change =
     (if \<bar>num_val max_temp_change\<bar> > num_val (dict_get (temp_change_threshold cfg) (PInt 3))
      then (if num_val max_temp_change > 0 then s_sig_rise else s_sig_fall)
      else if \<bar>num_val max_temp_change\<bar> > 15 / 10
      then (if num_val max_temp_change > 0 then s_slight_rise else s_slight_fall)
      else s_stable)"

definition analyze_temperature_trend ::
    "analysis_config \<Rightarrow> forecast \<Rightarrow> forecast list \<Rightarrow> py_error + trend_dict" where
  "analyze_temperature_trend cfg tom historical =
     (let hist_max_temps = List.map_filter temp_max historical;
          hist_min_temps = List.map_filter temp_min historical
      in if hist_max_temps = [] then Inr empty_trend
         else
           ebind (statistics_mean hist_max_temps) (\<lambda>avg_max_temp.
           ebind (statistics_mean hist_min_temps) (\<lambda>avg_min_temp.
           ebind (dict_item ''temp_max'' (temp_max tom)) (\<lambda>tmax.
           let max_temp_change = num_sub tmax avg_max_temp in
           ebind (dict_item ''temp_min'' (temp_min tom)) (\<lambda>tmin.
           let min_temp_change = num_sub tmin avg_min_temp in
           ebind (if length hist_max_temps > 1 then statistics_stdev hist_max_temps
                  else Inr (PInt 0)) (\<lambda>temp_std.
           let trend = trend_label cfg max_temp_change;
               tomorrow_diff = num_sub tmax tmin;
               avg_hist_diff = num_sub avg_max_temp avg_min_temp
           in Inr \<lparr>tt_trend = Some trend,
                   tt_max_temp_change = Some (py_round1 max_temp_change),
                   tt_min_temp_change = Some (py_round1 min_temp_change),
                   tt_avg_max_temp = Some (py_round1 avg_max_temp),
                   tt_avg_min_temp = Some (py_round1 avg_min_temp),
                   tt_tomorrow_diff = Some (py_round1 tomorrow_diff),
                   tt_avg_hist_diff = Some (py_round1 avg_hist_diff),
                   tt_volatility = Some (if num_val temp_std > 5 then s_high else s_normal),
                   tt_temp_std = Some (py_round1 temp_std)\<rparr>))))))"

subsection \<open>\<^verbatim>\<open>_analyze_precipitation\<close>\<close>

definition analyze_precipitation :: "forecast \<Rightarrow> forecast list \<Rightarrow> precip_dict" where
  "analyze_precipitation tom historical =
     (let rain_prob = dict_get (precipitation_probability tom) (PInt 0);
          recent_rainy_days =
            int (length (filter (\<lambda>h. py_in s_rain (dict_get (weather h) [])
                   \<or> num_val (dict_get (precipitation_probability h) (PInt 0)) > 50) historical));
          rain_trend =
            (if num_val rain_prob > 70 then s_likely_rain
             else if num_val rain_prob > 40 then s_possible_rain
             else s_little_rain)
      in \<lparr>pr_probability = rain_prob, pr_trend = rain_trend,
          pr_recent_rainy_days = recent_rainy_days,
          pr_weather_desc = dict_get (weather tom) s_unknown\<rparr>)"

subsection \<open>\<^verbatim>\<open>_analyze_comfort\<close>\<close>

text \<open>
  Line 119, \<^verbatim>\<open>temp_max + (humidity - 50) * 0.1\<close>: the difference is an int for an int
  humidity; the product with the double nearest to 0.1 and the sum are float operations.
\<close>

definition analyze_comfort :: "forecast \<Rightarrow> forecast list \<Rightarrow> py_error + comfort_dict" where
  "analyze_comfort tom historical =
     ebind (dict_item ''temp_max'' (temp_max tom)) (\<lambda>tmax.
     ebind (dict_item ''temp_min'' (temp_min tom)) (\<lambda>tmin.
     let hum = dict_get (humidity tom) (PInt 50);
         apparent_temp =
           (if num_val tmax > 25
            then PFloat (rnd (num_val tmax
                   + rnd (num_val (num_sub hum (PInt 50)) * rnd (1 / 10))))
            else tmax);
         comfort_level =
           (if 18 \<le> num_val apparent_temp \<and> num_val apparent_temp \<le> 26 then s_comfortable
            else if 15 \<le> num_val apparent_temp \<and> num_val apparent_temp < 18
                    \<or> 26 < num_val apparent_temp \<and> num_val apparent_temp \<le> 30
                 then s_fairly_comfortable
            else if num_val apparent_temp < 15 then s_cold
            else s_hot)
     in Inr \<lparr>cf_apparent_temp = py_round1 apparent_temp, cf_comfort_level = comfort_level,
             cf_humidity = hum, cf_temp_diff = num_sub tmax tmin\<rparr>))"

subsection \<open>\<^verbatim>\<open>_check_warnings\<close>\<close>

text \<open>The five warning texts of lines 146, 149, 154, 158 and 166, with the number they embed.\<close>

definition hot_warning :: "pynum \<Rightarrow> pystr" where
  "hot_warning t = hot_warning_pre @ py_str t @ hot_warning_post"

definition cold_warning :: "pynum \<Rightarrow> pystr" where
  "cold_warning t = cold_warning_pre @ py_str t @ cold_warning_post"

definition diff_warning :: "pynum \<Rightarrow> pystr" where
  "diff_warning d = diff_warning_pre @ py_str d @ diff_warning_post"

definition rain_warning :: "pynum \<Rightarrow> pystr" where
  "rain_warning p = rain_warning_pre @ py_str p @ rain_warning_post"

definition abrupt_warning :: "pystr \<Rightarrow> pynum \<Rightarrow> pystr" where
  "abrupt_warning direction c = abrupt_warning_pre @ direction @ py_str c @ abrupt_warning_post"

definition check_warnings ::
    "analysis_config \<Rightarrow> forecast \<Rightarrow> forecast list \<Rightarrow> py_error + pystr list" where
  "check_warnings cfg tom historical =
     (let warnings = [] in
      ebind (dict_item ''temp_max'' (temp_max tom)) (\<lambda>tmax.
      let warnings =
            (if num_val tmax \<ge> num_val (dict_get (hot_warning_temp cfg) (PInt 35))
             then warnings @ [hot_warning tmax] else warnings) in
      ebind (dict_item ''temp_min'' (temp_min tom)) (\<lambda>tmin.
      let warnings =
            (if num_val tmin \<le> num_val (dict_get (cold_warning_temp cfg) (PInt 5))
             then warnings @ [cold_warning tmin] else warnings);
          temp_diff = num_sub tmax tmin;
          warnings =
            (if num_val temp_diff > num_val (dict_get (temp_diff_threshold cfg) (PInt 10))
             then warnings @ [diff_warning (py_round1 temp_diff)] else warnings) in
      ebind (if num_val (dict_get (precipitation_probability tom) (PInt 0)) > 70
             then ebind (dict_item ''precipitation_probability'' (precipitation_probability tom))
                    (\<lambda>p. Inr (warnings @ [rain_warning p]))
             else Inr warnings) (\<lambda>warnings.
      Inr (case historical of
             [] \<Rightarrow> warnings
           | last_day # earlier \<Rightarrow>
               (let temp_change = num_sub tmax (dict_get (temp_max last_day) tmax)
                in if \<bar>num_val temp_change\<bar> > 8
                   then (let direction = (if num_val temp_change > 0 then s_up else s_down)
                         in warnings @ [abrupt_warning direction (py_abs (py_round1 temp_change))])
                   else warnings))))))"

subsection \<open>The suggestions\<close>

text \<open>
  \<^verbatim>\<open>_get_clothing_suggestion\<close>. The parameters are annotated as floats and only their
  values are used; the difference of line 207 is the float difference, which is also the
  difference of two ints of usual size. The midday tip of line 231 is formatted with the
  specifier \<^verbatim>\<open>. 0f\<close>, with a space after the point, which Python rejects with
  \<^verbatim>\<open>ValueError: Format specifier missing precision\<close>; the other tips use
  \<^verbatim>\<open>.0f\<close>.
\<close>

text \<open>Lines 210 to 225: the wardrobe of the temperature band of the minimum.\<close>

definition morning_clothing :: "real \<Rightarrow> pystr" where
  "morning_clothing tmin =
     (if tmin < - 5 then clothing_band1
      else if tmin < 0 then clothing_band2
      else if tmin < 5 then clothing_band3
      else if tmin < 10 then clothing_band4
      else if tmin < 15 then clothing_band5
      else if tmin < 20 then clothing_band6
      else if tmin < 25 then clothing_band7
      else clothing_band8)"

definition get_clothing_suggestion :: "real \<Rightarrow> real \<Rightarrow> real \<Rightarrow> py_error + pystr" where
  "get_clothing_suggestion tmax tmin apparent_temp =
     (let temp_diff = rnd (tmax - tmin);
          morning = morning_clothing tmin
      in if temp_diff \<ge> 12 then
           ebind (if tmax \<ge> 20 then Inl ValueError
                  else if tmax \<ge> 15 then Inr (tip12_mild_pre @ fmt_f0 tmax @ tip12_mild_post)
                  else Inr (tip12_cool_pre @ fmt_f0 tmax @ tip12_cool_post)) (\<lambda>midday_tip.
           Inr (onion_a @ morning @ onion_b @ fmt_f0 temp_diff @ onion_c @ midday_tip @ onion_d))
         else if temp_diff \<ge> 8 then
           (let midday_tip =
                  (if tmax \<ge> 20 then tip8_warm_pre @ fmt_f0 tmax @ tip8_warm_post
                   else tip8_cool_pre @ fmt_f0 tmax @ tip8_cool_post)
            in Inr (morning @ range_a @ fmt_f0 temp_diff @ range_b @ midday_tip))
         else Inr morning)"

text \<open>\<^verbatim>\<open>_get_activity_suggestion\<close>.\<close>

definition get_activity_suggestion :: "pystr \<Rightarrow> pystr \<Rightarrow> real \<Rightarrow> pystr" where
  "get_activity_suggestion wth comfort rain_prob =
     (if rain_prob > 70 then activity_indoor
      else if py_in s_rain wth \<or> py_in s_snow wth then activity_limited
      else if comfort = s_comfortable then activity_comfortable
      else if comfort = s_fairly_comfortable then activity_fairly
      else if comfort = s_hot then activity_hot
      else if comfort = s_cold then activity_cold
      else activity_default)"

text \<open>\<^verbatim>\<open>_get_health_suggestion\<close>.\<close>

definition get_health_suggestion :: "pystr \<Rightarrow> real \<Rightarrow> real \<Rightarrow> pystr" where
  "get_health_suggestion trend tmax tmin =
     (let sugg = [];
          sugg = (if py_in s_cooling trend then sugg @ [health_cooling]
                  else if py_in s_warming trend then sugg @ [health_warming]
                  else sugg);
          sugg = (if rnd (tmax - tmin) > 12 then sugg @ [health_range] else sugg);
          sugg = (if tmin < 10 then sugg @ [health_morning] else sugg);
          sugg = (if tmax > 30 then sugg @ [health_heat] else sugg)
      in if sugg \<noteq> [] then health_prefix @ py_join health_sep sugg else health_default)"

text \<open>\<^verbatim>\<open>_generate_suggestions\<close>.\<close>

definition generate_suggestions :: "analysis \<Rightarrow> py_error + suggestion_dict" where
  "generate_suggestions a =
     (let tom = tomorrow a;
          temp_trend = temperature_trend a;
          comfort = comfort_analysis a
      in ebind (dict_item ''temp_max'' (temp_max tom)) (\<lambda>tmax.
         ebind (dict_item ''temp_min'' (temp_min tom)) (\<lambda>tmin.
         ebind (get_clothing_suggestion (num_val tmax) (num_val tmin)
                  (num_val (dict_get (map_option cf_apparent_temp comfort) tmax))) (\<lambda>cl.
         let act = get_activity_suggestion (dict_get (weather tom) [])
                     (dict_get (map_option cf_comfort_level comfort) [])
                     (num_val (dict_get (precipitation_probability tom) (PInt 0)));
             hl = get_health_suggestion (dict_get (tt_trend temp_trend) [])
                    (num_val tmax) (num_val tmin)
         in Inr \<lparr>clothing = cl, activity = act, health = hl\<rparr>))))"

subsection \<open>\<^verbatim>\<open>_generate_simple_report\<close> and \<^verbatim>\<open>analyze_weather_trend\<close>\<close>

definition generate_simple_report :: "forecast \<Rightarrow> py_error + analysis" where
  "generate_simple_report tom =
     ebind (dict_item ''temp_max'' (temp_max tom)) (\<lambda>tmax.
     ebind (dict_item ''temp_min'' (temp_min tom)) (\<lambda>tmin.
     ebind (get_clothing_suggestion (num_val tmax) (num_val tmin) (num_val tmax)) (\<lambda>cl.
     Inr \<lparr>tomorrow = tom,
          temperature_trend = empty_trend\<lparr>tt_trend := Some s_no_history\<rparr>,
          precipitation_trend = None,
          comfort_analysis = None,
          weather_warnings = [],
          suggestions = Some \<lparr>clothing = cl, activity = s_no_suggestion,
                               health = s_watch_weather\<rparr>\<rparr>)))"

definition analyze_weather_trend ::
    "analysis_config \<Rightarrow> forecast \<Rightarrow> forecast list \<Rightarrow> py_error + analysis" where
  "analyze_weather_trend cfg tom historical =
     (if historical = [] then generate_simple_report tom
      else
        ebind (analyze_temperature_trend cfg tom historical) (\<lambda>tt.
        let pr = analyze_precipitation tom historical in
        ebind (analyze_comfort tom historical) (\<lambda>cf.
        ebind (check_warnings cfg tom historical) (\<lambda>ws.
        let a = \<lparr>tomorrow = tom, temperature_trend = tt, precipitation_trend = Some pr,
                 comfort_analysis = Some cf, weather_warnings = ws, suggestions = None\<rparr>
        in ebind (generate_suggestions a) (\<lambda>sg. Inr (a\<lparr>suggestions := Some sg\<rparr>))))))"

subsection \<open>\<^verbatim>\<open>format_report\<close>\<close>

text \<open>
  The report is built by appending one piece of text after the other. Each piece is a
  function here: the header (lines 315 to 324), which raises when the date or a temperature is
  missing, then the sections that are appended under a condition and are empty otherwise,
  and the footer with the reading of the clock (lines 374 to 377).
\<close>

definition header_section :: "forecast \<Rightarrow> py_error + pystr" where
  "header_section tom =
     ebind (dict_item ''date'' (date tom)) (\<lambda>d.
     ebind (dict_item ''temp_min'' (temp_min tom)) (\<lambda>tmin.
     ebind (dict_item ''temp_max'' (temp_max tom)) (\<lambda>tmax.
     Inr (header_a @ d @ header_b @ dict_get (weather tom) s_unknown
            @ header_c @ py_str tmin @ header_d @ py_str tmax
            @ header_e @ dict_get (map_option py_str (humidity tom)) [45]
            @ header_f @ dict_get (wind_scale tom) [45] @ header_g))))"

definition trend_section :: "trend_dict \<Rightarrow> pystr" where
  "trend_section temp_trend =
     (if trend_nonempty temp_trend then
        trend_sec_a @ dict_get (tt_trend temp_trend) s_stable
          @ trend_sec_b
          @ fmt_f1 True (num_val (dict_get (tt_max_temp_change temp_trend) (PInt 0)))
          @ trend_sec_c
          @ fmt_f1 True (num_val (dict_get (tt_min_temp_change temp_trend) (PInt 0)))
          @ trend_sec_d
          @ fmt_f1 False (num_val (dict_get (tt_tomorrow_diff temp_trend) (PInt 0)))
          @ trend_sec_e
          @ fmt_f1 False (num_val (dict_get (tt_avg_hist_diff temp_trend) (PInt 0)))
          @ trend_sec_f
      else [])"

definition precip_section :: "precip_dict option \<Rightarrow> pystr" where
  "precip_section precip =
     (case precip of
        Some p \<Rightarrow>
          precip_sec_a @ py_str (pr_probability p) @ precip_sec_b @ pr_trend p
            @ precip_sec_c @ str_int (pr_recent_rainy_days p) @ precip_sec_d
      | None \<Rightarrow> [])"

definition comfort_section :: "comfort_dict option \<Rightarrow> pystr" where
  "comfort_section comfort =
     (case comfort of
        Some c \<Rightarrow>
          comfort_sec_a @ py_str (cf_apparent_temp c) @ comfort_sec_b
            @ cf_comfort_level c @ comfort_sec_c
      | None \<Rightarrow> [])"

fun warning_lines :: "pystr list \<Rightarrow> pystr" where
  "warning_lines [] = []"
| "warning_lines (w # ws) = w @ warning_end @ warning_lines ws"

definition warnings_section :: "pystr list \<Rightarrow> pystr" where
  "warnings_section warnings =
     (if warnings \<noteq> [] then warnings_heading @ warning_lines warnings else [])"

definition suggestions_section :: "suggestion_dict option \<Rightarrow> pystr" where
  "suggestions_section sugg =
     (case sugg of
        Some s \<Rightarrow>
          sugg_sec_a @ clothing s @ sugg_sec_b @ activity s @ sugg_sec_c @ health s
            @ sugg_sec_d
      | None \<Rightarrow> [])"

definition footer :: "datetime \<Rightarrow> pystr" where
  "footer now = footer_a @ strftime now @ footer_b"

definition format_report :: "datetime \<Rightarrow> analysis \<Rightarrow> py_error + pystr" where
  "format_report now a =
     ebind (header_section (tomorrow a)) (\<lambda>report.
     Inr (report @ trend_section (temperature_trend a)
            @ precip_section (precipitation_trend a)
            @ comfort_section (comfort_analysis a)
            @ warnings_section (weather_warnings a)
            @ suggestions_section (suggestions a)
            @ footer now))"

text \<open>
  \<^verbatim>\<open>WeatherBot.run\<close> in \<^verbatim>\<open>main.py\<close> (lines 160 to 163) analyses the forecast
  and formats the analysis.
\<close>

definition daily_report ::
    "analysis_config \<Rightarrow> datetime \<Rightarrow> forecast \<Rightarrow> forecast list \<Rightarrow> py_error + pystr" where
  "daily_report cfg now tom historical =
     ebind (analyze_weather_trend cfg tom historical) (format_report now)"

section \<open>Notions used in the statements\<close>

text \<open>
  The history on which the mean of the minima is taken of no data: some record carries a
  maximum and no record carries a minimum.
\<close>

definition mean_fails :: "forecast list \<Rightarrow> bool" where
  "mean_fails historical \<longleftrightarrow>
     (\<exists>h \<in> set historical. temp_max h \<noteq> None) \<and> (\<forall>h \<in> set historical. temp_min h = None)"

text \<open>The clothing text of an analysis.\<close>

definition clothing_of :: "analysis \<Rightarrow> pystr option" where
  "clothing_of a = map_option clothing (suggestions a)"


section \<open>Evaluating the float operations\<close>

text \<open>
  The exponent of a number is fixed by the powers of two around it; the rules below
  give it for the magnitudes of temperatures and percentages, so that \<open>rnd\<close> can be
  computed on a concrete number by rewriting.
\<close>

lemma float_exp_eq:
  assumes "2 powi e \<le> \<bar>x\<bar>" and "\<bar>x\<bar> < 2 powi (e + 1)"
  shows "float_exp x = e"
proof -
  have pos: "0 < \<bar>x\<bar>"
    using assms(1) by (smt (verit) zero_less_power_int)
  have a: "(2::real) powr (of_int e) = 2 powi e"
    by (simp add: powr_real_of_int')
  have "(2::real) powr (of_int (e + 1)) = 2 powi (e + 1)"
    using powr_real_of_int' [of "2::real" "e + 1"] by simp
  then have b: "(2::real) powr (of_int e + 1) = 2 powi (e + 1)"
    by simp
  from assms have "2 powr (of_int e) \<le> \<bar>x\<bar> \<and> \<bar>x\<bar> < 2 powr (of_int e + 1)"
    unfolding a b by simp
  with floor_log_eq_powr_iff [of "\<bar>x\<bar>" 2 e] pos show ?thesis
    by (simp add: float_exp_def)
qed

lemma float_exp_binade:
  "1 / 16 \<le> \<bar>x\<bar> \<Longrightarrow> \<bar>x\<bar> < 1 / 8 \<Longrightarrow> float_exp x = - 4"
  "1 / 8 \<le> \<bar>x\<bar> \<Longrightarrow> \<bar>x\<bar> < 1 / 4 \<Longrightarrow> float_exp x = - 3"
  "1 / 4 \<le> \<bar>x\<bar> \<Longrightarrow> \<bar>x\<bar> < 1 / 2 \<Longrightarrow> float_exp x = - 2"
  "1 / 2 \<le> \<bar>x\<bar> \<Longrightarrow> \<bar>x\<bar> < 1 \<Longrightarrow> float_exp x = - 1"
  "1 \<le> \<bar>x\<bar> \<Longrightarrow> \<bar>x\<bar> < 2 \<Longrightarrow> float_exp x = 0"
  "2 \<le> \<bar>x\<bar> \<Longrightarrow> \<bar>x\<bar> < 4 \<Longrightarrow> float_exp x = 1"
  "4 \<le> \<bar>x\<bar> \<Longrightarrow> \<bar>x\<bar> < 8 \<Longrightarrow> float_exp x = 2"
  "8 \<le> \<bar>x\<bar> \<Longrightarrow> \<bar>x\<bar> < 16 \<Longrightarrow> float_exp x = 3"
  "16 \<le> \<bar>x\<bar> \<Longrightarrow> \<bar>x\<bar> < 32 \<Longrightarrow> float_exp x = 4"
  "32 \<le> \<bar>x\<bar> \<Longrightarrow> \<bar>x\<bar> < 64 \<Longrightarrow> float_exp x = 5"
  "64 \<le> \<bar>x\<bar> \<Longrightarrow> \<bar>x\<bar> < 128 \<Longrightarrow> float_exp x = 6"
  by (rule float_exp_eq; simp add: power_int_minus field_simps)+

lemma rnd_zero: "rnd 0 = 0"
  by (simp add: rnd_def)

lemmas rnd_eval = rnd_def float_exp_binade round_half_even_def Let_def power_int_minus

lemma dec_exp_eq:
  assumes "10 powi e \<le> \<bar>x\<bar>" and "\<bar>x\<bar> < 10 powi (e + 1)"
  shows "dec_exp x = e"
proof -
  have pos: "0 < \<bar>x\<bar>"
    using assms(1) by (smt (verit) zero_less_power_int)
  have a: "(10::real) powr (of_int e) = 10 powi e"
    by (simp add: powr_real_of_int')
  have "(10::real) powr (of_int (e + 1)) = 10 powi (e + 1)"
    using powr_real_of_int' [of "10::real" "e + 1"] by simp
  then have b: "(10::real) powr (of_int e + 1) = 10 powi (e + 1)"
    by simp
  from assms have "10 powr (of_int e) \<le> \<bar>x\<bar> \<and> \<bar>x\<bar> < 10 powr (of_int e + 1)"
    unfolding a b by simp
  with floor_log_eq_powr_iff [of "\<bar>x\<bar>" 10 e] pos show ?thesis
    by (simp add: dec_exp_def)
qed

lemma dec_exp_decade:
  "1 / 10 \<le> \<bar>x\<bar> \<Longrightarrow> \<bar>x\<bar> < 1 \<Longrightarrow> dec_exp x = - 1"
  "1 \<le> \<bar>x\<bar> \<Longrightarrow> \<bar>x\<bar> < 10 \<Longrightarrow> dec_exp x = 0"
  "10 \<le> \<bar>x\<bar> \<Longrightarrow> \<bar>x\<bar> < 100 \<Longrightarrow> dec_exp x = 1"
  by (rule dec_exp_eq; simp add: power_int_minus field_simps)+

lemmas str_eval = str_float_def str_decimal_def str_int_def shortest_decimal.simps
  dec_exp_decade digits_of.simps frac_digits.simps rnd_eval

text \<open>
  The doubles written \<^verbatim>\<open>5.999999999999999\<close>, \<^verbatim>\<open>0.9999999999999999\<close> and
  \<^verbatim>\<open>32.2\<close>, and what Python prints for \<^verbatim>\<open>16.1 - 6.1\<close>.
\<close>

lemma float_literals:
  "py_float (5999999999999999 / 10 ^ 15) = PFloat (6 - 1 / 2 ^ 50)"
  "py_float (9999999999999999 / 10 ^ 16) = PFloat (1 - 1 / 2 ^ 53)"
  "py_float (322 / 10) = PFloat (2265873562520781 / 2 ^ 46)"
  by (simp_all add: py_float_def rnd_eval)

lemma str_float_examples:
  "py_str (PFloat 80) = [56, 48, 46, 48]"
  "py_str (py_float (23456 / 1000)) = [50, 51, 46, 52, 53, 54]"
  "py_str (num_sub (py_float (161 / 10)) (py_float (61 / 10)))
     = [49, 48, 46, 48, 48, 48, 48, 48, 48, 48, 48, 48, 48, 48, 48, 48, 48, 50]"
  by (simp_all add: py_float_def str_eval)


section \<open>Example inputs\<close>

text \<open>The configuration with no threshold set, so that every default applies.\<close>

definition default_config :: analysis_config where
  "default_config =
     \<lparr>temp_change_threshold = None, temp_diff_threshold = None,
      hot_warning_temp = None, cold_warning_temp = None\<rparr>"

text \<open>The dictionary without keys, and a forecast with a date and the two temperatures.\<close>

definition empty_record :: forecast where
  "empty_record =
     \<lparr>date = None, temp_max = None, temp_min = None, weather = None, humidity = None,
      precipitation_probability = None, wind_scale = None, wind_dir = None\<rparr>"

text \<open>The date \<^verbatim>\<open>2024-07-01\<close>.\<close>

definition example_date :: pystr where
  "example_date = [50, 48, 50, 52, 45, 48, 55, 45, 48, 49]"

definition day_with :: "pynum \<Rightarrow> pynum \<Rightarrow> forecast" where
  "day_with mx mn = empty_record\<lparr>date := Some example_date, temp_max := Some mx, temp_min := Some mn\<rparr>"

text \<open>Two readings of the clock, one second apart.\<close>

definition clock_a :: datetime where
  "clock_a = \<lparr>year = 2024, month = 6, day = 30, hour = 8, minute = 5, second = 58\<rparr>"

definition clock_b :: datetime where
  "clock_b = \<lparr>year = 2024, month = 6, day = 30, hour = 8, minute = 5, second = 59\<rparr>"

text \<open>An analysis whose report is the header and the footer only.\<close>

definition bare_analysis :: analysis where
  "bare_analysis =
     \<lparr>tomorrow = day_with (PInt 23) (PInt 18), temperature_trend = empty_trend,
      precipitation_trend = None, comfort_analysis = None, weather_warnings = [],
      suggestions = None\<rparr>"

text \<open>
  The same analysis with a temperature trend (changes of 3.04 and -0.38 against the means,
  diurnal ranges of 5.456 and 6.25) and a precipitation trend.
\<close>

definition trended_analysis :: analysis where
  "trended_analysis =
     bare_analysis\<lparr>precipitation_trend :=
       Some \<lparr>pr_probability = PFloat 80, pr_trend = s_likely_rain,
             pr_recent_rainy_days = 2, pr_weather_desc = s_unknown\<rparr>,
       temperature_trend :=
       empty_trend\<lparr>tt_trend := Some s_sig_rise,
         tt_max_temp_change := Some (py_float (304 / 100)),
         tt_min_temp_change := Some (py_float (- 38 / 100)),
         tt_tomorrow_diff := Some (py_float (5456 / 1000)),
         tt_avg_hist_diff := Some (py_float (625 / 100))\<rparr>\<rparr>"


section \<open>Numbers\<close>

lemma num_sub_value:
  "num_val (num_sub a b) =
     (if is_int a \<and> is_int b then num_val a - num_val b else rnd (num_val a - num_val b))"
  by (cases a; cases b) simp_all

lemma num_sub_self: "num_val (num_sub a a) = 0"
  by (cases a) (simp_all add: rnd_zero)

section \<open>The warnings\<close>

lemmas warning_text_defs =
  hot_warning_def cold_warning_def diff_warning_def rain_warning_def abrupt_warning_def
  hot_warning_pre_def cold_warning_pre_def diff_warning_pre_def rain_warning_pre_def
  abrupt_warning_pre_def

text \<open>The five warning texts differ in their fourth character, whatever numbers they embed.\<close>

lemma warnings_differ:
  "hot_warning a \<noteq> cold_warning b" "hot_warning a \<noteq> diff_warning c"
  "hot_warning a \<noteq> rain_warning d" "hot_warning a \<noteq> abrupt_warning dir e"
  "cold_warning b \<noteq> diff_warning c" "cold_warning b \<noteq> rain_warning d"
  "cold_warning b \<noteq> abrupt_warning dir e" "diff_warning c \<noteq> rain_warning d"
  "diff_warning c \<noteq> abrupt_warning dir e" "rain_warning d \<noteq> abrupt_warning dir e"
  by (simp_all add: warning_text_defs)

lemma not_abrupt:
  "\<not> starts_with abrupt_warning_pre (hot_warning a)"
  "\<not> starts_with abrupt_warning_pre (cold_warning b)"
  "\<not> starts_with abrupt_warning_pre (diff_warning c)"
  "\<not> starts_with abrupt_warning_pre (rain_warning d)"
  by (simp_all add: warning_text_defs)

text \<open>
  With both temperatures present \<^verbatim>\<open>_check_warnings\<close> raises nothing, and the list it
  builds by appending is the concatenation of five optional entries.
\<close>

lemma check_warnings_present:
  assumes "temp_max tom = Some tmax" and "temp_min tom = Some tmin"
  shows "check_warnings cfg tom historical =
    Inr ((if num_val tmax \<ge> num_val (dict_get (hot_warning_temp cfg) (PInt 35))
          then [hot_warning tmax] else [])
       @ (if num_val tmin \<le> num_val (dict_get (cold_warning_temp cfg) (PInt 5))
          then [cold_warning tmin] else [])
       @ (if num_val (num_sub tmax tmin) > num_val (dict_get (temp_diff_threshold cfg) (PInt 10))
          then [diff_warning (py_round1 (num_sub tmax tmin))] else [])
       @ (case precipitation_probability tom of
            None \<Rightarrow> []
          | Some p \<Rightarrow> if num_val p > 70 then [rain_warning p] else [])
       @ (case historical of
            [] \<Rightarrow> []
          | last_day # earlier \<Rightarrow>
              (case temp_max last_day of
                 None \<Rightarrow> []
               | Some m \<Rightarrow>
                   if \<bar>num_val (num_sub tmax m)\<bar> > 8
                   then [abrupt_warning (if num_val (num_sub tmax m) > 0 then s_up else s_down)
                           (py_abs (py_round1 (num_sub tmax m)))]
                   else [])))"
  using assms
  by (simp add: check_warnings_def num_sub_self Let_def split: option.splits list.splits)

text \<open>
  C2. The range warning does not fire exactly when maximum minus minimum exceeds the
  threshold: for the maximum 16 and the minimum \<^verbatim>\<open>5.999999999999999\<close> (the double
  \<open>6 - 1 / 2 ^ 50\<close>) the difference exceeds 10, the float subtraction of line 152 rounds it
  to 10.0, and no warning is returned.
\<close>

theorem range_warning_rounds_counterexample:
  "num_val (PInt 16) - num_val (py_float (5999999999999999 / 10 ^ 15)) > 10
   \<and> check_warnings default_config
         (day_with (PInt 16) (py_float (5999999999999999 / 10 ^ 15))) [] = Inr []"
  unfolding float_literals
  by (simp add: check_warnings_def day_with_def empty_record_def default_config_def rnd_eval)

text \<open>
  C2, as amended. For a forecast with both temperatures, \<^verbatim>\<open>_check_warnings\<close> returns the
  list of exactly the warnings whose condition holds, in the order heat, cold, diurnal
  range, rain, day-over-day change: the heat warning iff the maximum is at least
  \<^verbatim>\<open>hot_warning_temp\<close> (default 35), the cold warning iff the minimum is at most
  \<^verbatim>\<open>cold_warning_temp\<close> (default 5), the rain warning iff the precipitation
  probability (default 0) exceeds 70. The range warning fires iff the difference of maximum
  and minimum as Python computes it exceeds \<^verbatim>\<open>temp_diff_threshold\<close> (default 10), and
  the change warning iff the history is not empty, its first record has a maximum, and the
  computed difference of tomorrow's maximum and that maximum exceeds 8 in absolute value.
  The computed difference of two ints is their exact difference; with a float among the two
  it is the double nearest to the exact difference. The list has at most five entries and no
  entry twice.
\<close>

theorem warnings_fire_exactly:
  assumes "temp_max tom = Some tmax" and "temp_min tom = Some tmin"
  shows "\<exists>ws. check_warnings cfg tom historical = Inr ws
    \<and> ws =
        (if num_val tmax \<ge> num_val (dict_get (hot_warning_temp cfg) (PInt 35))
         then [hot_warning tmax] else [])
      @ (if num_val tmin \<le> num_val (dict_get (cold_warning_temp cfg) (PInt 5))
         then [cold_warning tmin] else [])
      @ (if num_val (num_sub tmax tmin) > num_val (dict_get (temp_diff_threshold cfg) (PInt 10))
         then [diff_warning (py_round1 (num_sub tmax tmin))] else [])
      @ (if num_val (dict_get (precipitation_probability tom) (PInt 0)) > 70
         then [rain_warning (dict_get (precipitation_probability tom) (PInt 0))] else [])
      @ (case historical of
           [] \<Rightarrow> []
         | last_day # earlier \<Rightarrow>
             (case temp_max last_day of
                None \<Rightarrow> []
              | Some m \<Rightarrow>
                  if \<bar>num_val (num_sub tmax m)\<bar> > 8
                  then [abrupt_warning (if num_val (num_sub tmax m) > 0 then s_up else s_down)
                          (py_abs (py_round1 (num_sub tmax m)))]
                  else []))
    \<and> length ws \<le> 5 \<and> distinct ws
    \<and> (\<forall>a b. num_val (num_sub a b) =
          (if is_int a \<and> is_int b then num_val a - num_val b
           else rnd (num_val a - num_val b)))"
proof -
  let ?ws = "(if num_val tmax \<ge> num_val (dict_get (hot_warning_temp cfg) (PInt 35))
         then [hot_warning tmax] else [])
      @ (if num_val tmin \<le> num_val (dict_get (cold_warning_temp cfg) (PInt 5))
         then [cold_warning tmin] else [])
      @ (if num_val (num_sub tmax tmin) > num_val (dict_get (temp_diff_threshold cfg) (PInt 10))
         then [diff_warning (py_round1 (num_sub tmax tmin))] else [])
      @ (if num_val (dict_get (precipitation_probability tom) (PInt 0)) > 70
         then [rain_warning (dict_get (precipitation_probability tom) (PInt 0))] else [])
      @ (case historical of
           [] \<Rightarrow> []
         | last_day # earlier \<Rightarrow>
             (case temp_max last_day of
                None \<Rightarrow> []
              | Some m \<Rightarrow>
                  if \<bar>num_val (num_sub tmax m)\<bar> > 8
                  then [abrupt_warning (if num_val (num_sub tmax m) > 0 then s_up else s_down)
                          (py_abs (py_round1 (num_sub tmax m)))]
                  else []))"
  have run: "check_warnings cfg tom historical = Inr ?ws"
    by (simp add: check_warnings_present [OF assms] split: option.splits)
  have len: "length ?ws \<le> 5"
    by (simp split: list.splits option.splits)
  have dist: "distinct ?ws"
    by (simp add: warnings_differ split: list.splits option.splits)
  from run len dist num_sub_value show ?thesis by blast
qed

theorem warnings_fire_exactly_witness:
  "temp_max (day_with (PInt 36) (PInt 4)\<lparr>precipitation_probability := Some (PFloat 80)\<rparr>)
     = Some (PInt 36)
   \<and> temp_min (day_with (PInt 36) (PInt 4)\<lparr>precipitation_probability := Some (PFloat 80)\<rparr>)
     = Some (PInt 4)
   \<and> check_warnings default_config
        (day_with (PInt 36) (PInt 4)\<lparr>precipitation_probability := Some (PFloat 80)\<rparr>)
        [day_with (PInt 25) (PInt 18)]
     = Inr [hot_warning (PInt 36), cold_warning (PInt 4), diff_warning (PInt 32),
            rain_warning (PFloat 80), abrupt_warning s_up (PInt 11)]"
  using warnings_fire_exactly [of "day_with (PInt 36) (PInt 4)\<lparr>precipitation_probability := Some (PFloat 80)\<rparr>"
      "PInt 36" "PInt 4" default_config "[day_with (PInt 25) (PInt 18)]"]
  by (simp add: day_with_def empty_record_def default_config_def)

text \<open>
  C10. When the first record of a non-empty history has no maximum, the comparison uses
  tomorrow's own maximum, the change is zero, and the result is that of the empty history:
  the day-over-day warning is not in the list, whatever tomorrow's temperatures are.
\<close>

theorem no_abrupt_warning_without_recent_max:
  assumes "temp_max last_day = None"
  shows "check_warnings cfg tom (last_day # earlier) = check_warnings cfg tom []
    \<and> (\<forall>ws. check_warnings cfg tom (last_day # earlier) = Inr ws
          \<longrightarrow> (\<forall>w \<in> set ws. \<not> starts_with abrupt_warning_pre w))"
proof (cases "\<exists>tmax tmin. temp_max tom = Some tmax \<and> temp_min tom = Some tmin")
  case True
  then obtain tmax tmin where t: "temp_max tom = Some tmax" "temp_min tom = Some tmin"
    by blast
  show ?thesis
    using assms
    by (auto simp add: check_warnings_present [OF t] not_abrupt split: option.splits if_splits)
next
  case False
  then have "temp_max tom = None \<or> temp_min tom = None"
    by (cases "temp_max tom"; cases "temp_min tom") simp_all
  then show ?thesis
    by (cases "temp_max tom") (auto simp add: check_warnings_def)
qed

theorem no_abrupt_warning_without_recent_max_witness:
  "temp_max (empty_record\<lparr>temp_min := Some (PInt 2)\<rparr>) = None
   \<and> check_warnings default_config (day_with (PInt 36) (PInt 20))
        [empty_record\<lparr>temp_min := Some (PInt 2)\<rparr>, day_with (PInt 10) (PInt 2)]
     = Inr [hot_warning (PInt 36), diff_warning (PInt 16)]"
  using no_abrupt_warning_without_recent_max [of "empty_record\<lparr>temp_min := Some (PInt 2)\<rparr>"
      default_config "day_with (PInt 36) (PInt 20)" "[day_with (PInt 10) (PInt 2)]"]
  by (simp add: check_warnings_def day_with_def empty_record_def default_config_def)


section \<open>Results and errors, rounding, the mean\<close>

lemma ebind_Inr_iff: "ebind m f = Inr y \<longleftrightarrow> (\<exists>x. m = Inr x \<and> f x = Inr y)"
  by (cases m) simp_all

lemma ebind_Inl_iff: "ebind m f = Inl e \<longleftrightarrow> m = Inl e \<or> (\<exists>x. m = Inr x \<and> f x = Inl e)"
  by (cases m) simp_all

lemma round_half_even_of_int: "round_half_even (of_int k) = k"
  by (simp add: round_half_even_def)

lemma sum_list_int_of:
  "list_all is_int xs \<Longrightarrow> of_int (sum_list (map int_of xs)) = sum_list (map num_val xs)"
proof (induction xs)
  case Nil
  then show ?case by simp
next
  case (Cons x xs)
  then show ?case by (cases x) simp_all
qed

lemma whole_quotient:
  assumes "0 < n"
  shows "s mod n = 0 \<longleftrightarrow> (\<exists>k::int. real_of_int s / real_of_int n = of_int k)"
proof
  assume "s mod n = 0"
  then have "n dvd s" by presburger
  then have "real_of_int (s div n) = real_of_int s / real_of_int n"
    by (rule real_of_int_div)
  then show "\<exists>k::int. real_of_int s / real_of_int n = of_int k" by metis
next
  assume "\<exists>k::int. real_of_int s / real_of_int n = of_int k"
  then obtain k :: int where "real_of_int s / real_of_int n = of_int k" by blast
  with assms have "real_of_int s = real_of_int (k * n)"
    by (simp add: field_simps)
  then have "s = k * n" by (simp only: of_int_eq_iff)
  then show "s mod n = 0" by simp
qed

text \<open>
  The value of the mean: the exact mean when the data are ints and the mean is whole,
  the double nearest to the exact mean otherwise.
\<close>

lemma statistics_mean_value:
  assumes "statistics_mean xs = Inr m"
  shows "num_val m =
    (let mu = sum_list (map num_val xs) / real (length xs)
     in if list_all is_int xs \<and> (\<exists>k::int. mu = of_int k) then mu else rnd mu)"
proof (cases "list_all is_int xs")
  case True
  let ?s = "sum_list (map int_of xs)" and ?n = "int (length xs)"
  from assms have ne: "xs \<noteq> []"
    by (auto simp add: statistics_mean_def)
  then have n: "0 < ?n" by simp
  have s: "real_of_int ?s = sum_list (map num_val xs)"
    using True by (rule sum_list_int_of)
  have q: "real_of_int ?s / real_of_int ?n = sum_list (map num_val xs) / real (length xs)"
    using s by simp
  show ?thesis
  proof (cases "?s mod ?n = 0")
    case z: True
    then have "?n dvd ?s" by presburger
    then have "real_of_int (?s div ?n) = real_of_int ?s / real_of_int ?n"
      by (rule real_of_int_div)
    moreover from assms True ne z have "m = PInt (?s div ?n)"
      by (simp add: statistics_mean_def Let_def)
    moreover from z whole_quotient [OF n, of ?s]
    have "\<exists>k::int. sum_list (map num_val xs) / real (length xs) = of_int k"
      unfolding q by simp
    ultimately show ?thesis using True q by (simp add: Let_def)
  next
    case nz: False
    with assms True ne have "m = PFloat (rnd (of_int ?s / of_int ?n))"
      by (simp add: statistics_mean_def Let_def)
    moreover from nz whole_quotient [OF n, of ?s]
    have "\<not> (\<exists>k::int. sum_list (map num_val xs) / real (length xs) = of_int k)"
      unfolding q by simp
    ultimately show ?thesis using q s by (simp add: Let_def)
  qed
next
  case False
  with assms show ?thesis
    by (auto simp add: statistics_mean_def Let_def split: if_splits)
qed

lemma statistics_mean_total: "xs \<noteq> [] \<Longrightarrow> \<exists>m. statistics_mean xs = Inr m"
  by (simp add: statistics_mean_def Let_def)

lemma statistics_mean_empty: "statistics_mean [] = Inl StatisticsError"
  by (simp add: statistics_mean_def)

lemma statistics_stdev_total: "1 < length xs \<Longrightarrow> \<exists>s. statistics_stdev xs = Inr s"
  by (simp add: statistics_stdev_def Let_def)

lemmas comfort_label_defs =
  s_comfortable_def s_fairly_comfortable_def s_cold_def s_hot_def

text \<open>
  C3. The analysis can report an apparent temperature of exactly 30.0 and label it "hot":
  for the maximum \<^verbatim>\<open>32.2\<close> and the humidity 28 the formula gives 30 on the numbers as
  written, the float operations of line 119 give a double just above 30, which is labelled
  "hot" and reported, rounded to one decimal, as 30.0.
\<close>

theorem comfort_thirty_hot_counterexample:
  "322 / 10 + (28 - 50) * (1 / 10) = (30::real)
   \<and> (case analyze_comfort
            (day_with (py_float (322 / 10)) (PInt 20)\<lparr>humidity := Some (PInt 28)\<rparr>) [] of
         Inl e \<Rightarrow> False
       | Inr c \<Rightarrow> cf_apparent_temp c = PFloat 30 \<and> cf_comfort_level c = s_hot)"
  unfolding float_literals
  by (simp add: analyze_comfort_def day_with_def empty_record_def rnd_eval)

text \<open>
  C3, as amended. For a forecast with both temperatures, let \<open>a\<close> be the maximum when the
  maximum is at most 25, and otherwise the double that Python computes for
  \<^verbatim>\<open>temp_max + (humidity - 50) * 0.1\<close>, the humidity being 50 when absent: the
  difference (exact for an int humidity), its product with the double nearest to 0.1 and
  the sum, each rounded to the nearest double. \<^verbatim>\<open>_analyze_comfort\<close> classifies by the
  unrounded \<open>a\<close>: "comfortable" iff \<open>18 \<le> a \<le> 26\<close>, "fairly comfortable" iff
  \<open>15 \<le> a < 18\<close> or \<open>26 < a \<le> 30\<close>, "cold" iff \<open>a < 15\<close>, "hot" iff \<open>30 < a\<close>; so an
  \<open>a\<close> of exactly 18 is comfortable and an \<open>a\<close> of exactly 30 is fairly comfortable. The
  apparent temperature it reports is \<open>a\<close> rounded to one decimal (an int maximum of at most
  25 is reported as it is), so that a reported 30.0 is labelled "hot" when \<open>a\<close> is just
  above 30.
\<close>

theorem comfort_by_computed_temperature:
  assumes "temp_max tom = Some tmax" and "temp_min tom = Some tmin"
  shows "let hum = dict_get (humidity tom) (PInt 50);
             a = (if num_val tmax \<le> 25 then num_val tmax
                  else rnd (num_val tmax + rnd (num_val (num_sub hum (PInt 50)) * rnd (1 / 10))))
         in \<exists>c. analyze_comfort tom historical = Inr c
              \<and> num_val (cf_apparent_temp c) =
                  (if is_int tmax \<and> num_val tmax \<le> 25 then a
                   else rnd (of_int (round_half_even (a * 10)) / 10))
              \<and> (cf_comfort_level c = s_comfortable \<longleftrightarrow> 18 \<le> a \<and> a \<le> 26)
              \<and> (cf_comfort_level c = s_fairly_comfortable
                    \<longleftrightarrow> (15 \<le> a \<and> a < 18) \<or> (26 < a \<and> a \<le> 30))
              \<and> (cf_comfort_level c = s_cold \<longleftrightarrow> a < 15)
              \<and> (cf_comfort_level c = s_hot \<longleftrightarrow> 30 < a)"
proof -
  define hum where "hum = dict_get (humidity tom) (PInt 50)"
  define a where "a = (if num_val tmax \<le> 25 then num_val tmax
      else rnd (num_val tmax + rnd (num_val (num_sub hum (PInt 50)) * rnd (1 / 10))))"
  define ap where "ap = (if num_val tmax > 25
      then PFloat (rnd (num_val tmax + rnd (num_val (num_sub hum (PInt 50)) * rnd (1 / 10))))
      else tmax)"
  define lv where "lv =
           (if 18 \<le> a \<and> a \<le> 26 then s_comfortable
            else if 15 \<le> a \<and> a < 18 \<or> 26 < a \<and> a \<le> 30 then s_fairly_comfortable
            else if a < 15 then s_cold
            else s_hot)"
  have ap: "num_val ap = a"
    by (simp add: ap_def a_def)
  have run: "analyze_comfort tom historical =
      Inr \<lparr>cf_apparent_temp = py_round1 ap, cf_comfort_level = lv,
           cf_humidity = hum, cf_temp_diff = num_sub tmax tmin\<rparr>"
  proof (cases "num_val tmax > 25")
    case True
    then show ?thesis
      using assms by (simp add: analyze_comfort_def Let_def lv_def ap_def a_def hum_def)
  next
    case False
    then show ?thesis
      using assms by (simp add: analyze_comfort_def Let_def lv_def ap_def a_def hum_def)
  qed
  have rep: "num_val (py_round1 ap) =
      (if is_int tmax \<and> num_val tmax \<le> 25 then a
       else rnd (of_int (round_half_even (a * 10)) / 10))"
  proof (cases "num_val tmax > 25")
    case True
    then show ?thesis by (simp add: ap_def a_def)
  next
    case False
    then show ?thesis by (cases tmax) (simp_all add: ap_def a_def)
  qed
  have l1: "lv = s_comfortable \<longleftrightarrow> 18 \<le> a \<and> a \<le> 26"
    by (simp add: lv_def comfort_label_defs)
  have l2: "lv = s_fairly_comfortable \<longleftrightarrow> (15 \<le> a \<and> a < 18) \<or> (26 < a \<and> a \<le> 30)"
    by (auto simp add: lv_def comfort_label_defs)
  have l3: "lv = s_cold \<longleftrightarrow> a < 15"
    by (auto simp add: lv_def comfort_label_defs)
  have l4: "lv = s_hot \<longleftrightarrow> 30 < a"
    by (auto simp add: lv_def comfort_label_defs)
  show ?thesis
    unfolding Let_def hum_def [symmetric] a_def [symmetric]
    using run rep l1 l2 l3 l4 by auto
qed

theorem comfort_by_computed_temperature_witness:
  "temp_max (day_with (PInt 28) (PInt 22)\<lparr>humidity := Some (PInt 70)\<rparr>) = Some (PInt 28)
   \<and> temp_min (day_with (PInt 28) (PInt 22)\<lparr>humidity := Some (PInt 70)\<rparr>) = Some (PInt 22)
   \<and> (\<exists>c. analyze_comfort (day_with (PInt 28) (PInt 22)\<lparr>humidity := Some (PInt 70)\<rparr>) []
            = Inr c
          \<and> num_val (cf_apparent_temp c) = 30
          \<and> cf_comfort_level c = s_fairly_comfortable \<and> cf_comfort_level c \<noteq> s_hot)"
proof -
  have a: "rnd (28 + rnd (20 * rnd (1 / 10))) = 30"
    by (simp add: rnd_eval)
  have r: "rnd (real_of_int (round_half_even 300) / 10) = 30"
    by (simp add: rnd_eval)
  from comfort_by_computed_temperature [of "day_with (PInt 28) (PInt 22)\<lparr>humidity := Some (PInt 70)\<rparr>"
      "PInt 28" "PInt 22" "[]"]
  show ?thesis
    by (auto simp add: day_with_def empty_record_def Let_def a r)
qed


section \<open>The temperature trend\<close>

lemma map_filter_empty_iff: "List.map_filter f xs = [] \<longleftrightarrow> (\<forall>x \<in> set xs. f x = None)"
  by (induction xs) (auto simp add: List.map_filter_simps split: option.splits)

lemmas trend_label_defs =
  s_stable_def s_sig_rise_def s_sig_fall_def s_slight_rise_def s_slight_fall_def

lemma trend_without_max:
  assumes "\<forall>h \<in> set historical. temp_max h = None"
  shows "analyze_temperature_trend cfg tom historical = Inr empty_trend"
  using assms by (simp add: analyze_temperature_trend_def map_filter_empty_iff)

lemma trend_without_min:
  assumes "\<exists>h \<in> set historical. temp_max h \<noteq> None"
    and "\<forall>h \<in> set historical. temp_min h = None"
  shows "analyze_temperature_trend cfg tom historical = Inl StatisticsError"
proof -
  from assms(1) have ne: "List.map_filter temp_max historical \<noteq> []"
    by (simp add: map_filter_empty_iff)
  then obtain m where "statistics_mean (List.map_filter temp_max historical) = Inr m"
    using statistics_mean_total by blast
  moreover from assms(2) have "List.map_filter temp_min historical = []"
    by (simp add: map_filter_empty_iff)
  ultimately show ?thesis
    using ne by (simp add: analyze_temperature_trend_def statistics_mean_empty)
qed

lemma trend_missing_key:
  assumes "\<exists>h \<in> set historical. temp_max h \<noteq> None"
    and "\<exists>h \<in> set historical. temp_min h \<noteq> None"
    and "temp_max tom = None \<or> temp_min tom = None"
  shows "analyze_temperature_trend cfg tom historical =
    Inl (KeyError (if temp_max tom = None then ''temp_max'' else ''temp_min''))"
proof -
  from assms(1) have ne: "List.map_filter temp_max historical \<noteq> []"
    by (simp add: map_filter_empty_iff)
  then obtain m where m: "statistics_mean (List.map_filter temp_max historical) = Inr m"
    using statistics_mean_total by blast
  from assms(2) have "List.map_filter temp_min historical \<noteq> []"
    by (simp add: map_filter_empty_iff)
  then obtain n where n: "statistics_mean (List.map_filter temp_min historical) = Inr n"
    using statistics_mean_total by blast
  show ?thesis
    using ne m n assms(3)
    by (cases "temp_max tom") (auto simp add: analyze_temperature_trend_def Let_def)
qed

lemma trend_full:
  assumes "\<exists>h \<in> set historical. temp_max h \<noteq> None"
    and "\<exists>h \<in> set historical. temp_min h \<noteq> None"
    and "temp_max tom = Some tmax" and "temp_min tom = Some tmin"
  shows "\<exists>avg_max avg_min temp_std.
    statistics_mean (List.map_filter temp_max historical) = Inr avg_max
    \<and> statistics_mean (List.map_filter temp_min historical) = Inr avg_min
    \<and> analyze_temperature_trend cfg tom historical =
        Inr \<lparr>tt_trend = Some (trend_label cfg (num_sub tmax avg_max)),
             tt_max_temp_change = Some (py_round1 (num_sub tmax avg_max)),
             tt_min_temp_change = Some (py_round1 (num_sub tmin avg_min)),
             tt_avg_max_temp = Some (py_round1 avg_max),
             tt_avg_min_temp = Some (py_round1 avg_min),
             tt_tomorrow_diff = Some (py_round1 (num_sub tmax tmin)),
             tt_avg_hist_diff = Some (py_round1 (num_sub avg_max avg_min)),
             tt_volatility = Some (if num_val temp_std > 5 then s_high else s_normal),
             tt_temp_std = Some (py_round1 temp_std)\<rparr>"
proof -
  let ?maxes = "List.map_filter temp_max historical"
  from assms(1) have ne: "?maxes \<noteq> []"
    by (simp add: map_filter_empty_iff)
  then obtain m where m: "statistics_mean ?maxes = Inr m"
    using statistics_mean_total by blast
  from assms(2) have "List.map_filter temp_min historical \<noteq> []"
    by (simp add: map_filter_empty_iff)
  then obtain n where n: "statistics_mean (List.map_filter temp_min historical) = Inr n"
    using statistics_mean_total by blast
  obtain s where s: "(if length ?maxes > 1 then statistics_stdev ?maxes else Inr (PInt 0)) = Inr s"
    using statistics_stdev_total [of ?maxes] by (cases "length ?maxes > 1") auto
  have "analyze_temperature_trend cfg tom historical =
        Inr \<lparr>tt_trend = Some (trend_label cfg (num_sub tmax m)),
             tt_max_temp_change = Some (py_round1 (num_sub tmax m)),
             tt_min_temp_change = Some (py_round1 (num_sub tmin n)),
             tt_avg_max_temp = Some (py_round1 m),
             tt_avg_min_temp = Some (py_round1 n),
             tt_tomorrow_diff = Some (py_round1 (num_sub tmax tmin)),
             tt_avg_hist_diff = Some (py_round1 (num_sub m n)),
             tt_volatility = Some (if num_val s > 5 then s_high else s_normal),
             tt_temp_std = Some (py_round1 s)\<rparr>"
    using ne m n s assms(3,4)
    by (simp add: analyze_temperature_trend_def Let_def)
  with m n show ?thesis by blast
qed

lemma statistics_mean_is_int:
  assumes "statistics_mean xs = Inr m"
  shows "is_int m \<longleftrightarrow>
    list_all is_int xs \<and> (\<exists>k::int. sum_list (map num_val xs) / real (length xs) = of_int k)"
proof (cases "list_all is_int xs")
  case True
  let ?s = "sum_list (map int_of xs)" and ?n = "int (length xs)"
  from assms have ne: "xs \<noteq> []"
    by (auto simp add: statistics_mean_def)
  then have n: "0 < ?n" by simp
  have "real_of_int ?s = sum_list (map num_val xs)"
    using True by (rule sum_list_int_of)
  then have q: "real_of_int ?s / real_of_int ?n = sum_list (map num_val xs) / real (length xs)"
    by simp
  from assms True ne have "is_int m \<longleftrightarrow> ?s mod ?n = 0"
    by (auto simp add: statistics_mean_def Let_def split: if_splits)
  with whole_quotient [OF n, of ?s] True show ?thesis
    unfolding q by simp
next
  case False
  with assms show ?thesis
    by (auto simp add: statistics_mean_def Let_def split: if_splits)
qed

lemma is_int_num_sub: "is_int (num_sub a b) \<longleftrightarrow> is_int a \<and> is_int b"
  by (cases a; cases b) simp_all

lemma py_round1_value:
  "num_val (py_round1 x) =
     (if is_int x then num_val x else rnd (of_int (round_half_even (num_val x * 10)) / 10))"
  by (cases x) simp_all

text \<open>
  C4. The label is not always the one of the exact difference: for tomorrow's maximum 4
  over a history with the single maximum \<^verbatim>\<open>0.9999999999999999\<close> (the double
  \<open>1 - 1 / 2 ^ 53\<close>) the maximum exceeds the mean by more than 3, the float subtraction of
  line 60 rounds the difference to 3.0, and the label is "slight rise".
\<close>

theorem trend_label_rounds_counterexample:
  "num_val (PInt 4) - num_val (py_float (9999999999999999 / 10 ^ 16)) > 3
   \<and> (case analyze_temperature_trend default_config (day_with (PInt 4) (PInt 0))
              [day_with (py_float (9999999999999999 / 10 ^ 16)) (PInt 0)] of
         Inl e \<Rightarrow> False
       | Inr r \<Rightarrow> tt_trend r = Some s_slight_rise)"
  unfolding float_literals
  by (simp add: analyze_temperature_trend_def statistics_mean_def trend_label_def
      List.map_filter_simps day_with_def empty_record_def default_config_def rnd_eval)

text \<open>
  C4, as amended. When some historical record carries a maximum, let the mean be the
  arithmetic mean of the historical maxima as \<^verbatim>\<open>statistics.mean\<close> returns it (exact
  when the maxima are ints and the mean is whole, the double nearest to the exact mean
  otherwise), and \<open>delta\<close> tomorrow's maximum minus that mean as Python computes it (exact
  between ints, the double nearest to the exact difference otherwise). Whenever
  \<^verbatim>\<open>_analyze_temperature_trend\<close> returns, its label is decided by the unrounded
  \<open>delta\<close>: "significant rise" or "significant fall" (by the sign of \<open>delta\<close>) when
  \<open>\<bar>delta\<bar>\<close> exceeds \<^verbatim>\<open>temp_change_threshold\<close> (default 3), else "slight rise" or
  "slight fall" when \<open>\<bar>delta\<bar>\<close> exceeds 1.5, else "stable"; the rounding to one decimal
  is applied to the reported change only. It does return when tomorrow's minimum is present
  and some historical record carries a minimum.
\<close>

theorem trend_label_by_computed_delta:
  assumes "\<exists>h \<in> set historical. temp_max h \<noteq> None" and "temp_max tom = Some tmax"
  shows "let maxes = List.map_filter temp_max historical;
             mu = sum_list (map num_val maxes) / real (length maxes);
             whole = (list_all is_int maxes \<and> (\<exists>k::int. mu = of_int k));
             mean = (if whole then mu else rnd mu);
             exact = (is_int tmax \<and> whole);
             delta = (if exact then num_val tmax - mean else rnd (num_val tmax - mean));
             threshold = num_val (dict_get (temp_change_threshold cfg) (PInt 3))
         in (\<forall>r. analyze_temperature_trend cfg tom historical = Inr r \<longrightarrow>
               tt_trend r =
                 Some (if \<bar>delta\<bar> > threshold
                       then (if delta > 0 then s_sig_rise else s_sig_fall)
                       else if \<bar>delta\<bar> > 15 / 10
                       then (if delta > 0 then s_slight_rise else s_slight_fall)
                       else s_stable)
               \<and> map_option num_val (tt_max_temp_change r)
                   = Some (if exact then delta
                           else rnd (of_int (round_half_even (delta * 10)) / 10)))
          \<and> (temp_min tom \<noteq> None \<and> (\<exists>h \<in> set historical. temp_min h \<noteq> None)
                \<longrightarrow> (\<exists>r. analyze_temperature_trend cfg tom historical = Inr r))"
proof -
  let ?maxes = "List.map_filter temp_max historical"
  define mu where "mu = sum_list (map num_val ?maxes) / real (length ?maxes)"
  define whole where "whole \<longleftrightarrow> list_all is_int ?maxes \<and> (\<exists>k::int. mu = of_int k)"
  define mean where "mean = (if whole then mu else rnd mu)"
  define exact where "exact \<longleftrightarrow> is_int tmax \<and> whole"
  define delta where
    "delta = (if exact then num_val tmax - mean else rnd (num_val tmax - mean))"
  have total: "\<exists>r. analyze_temperature_trend cfg tom historical = Inr r"
    if "temp_min tom \<noteq> None" "\<exists>h \<in> set historical. temp_min h \<noteq> None"
  proof -
    from that(1) obtain tmin where "temp_min tom = Some tmin" by blast
    from trend_full [OF assms(1) that(2) assms(2) this] show ?thesis by blast
  qed
  have label: "tt_trend r =
                 Some (if \<bar>delta\<bar> > num_val (dict_get (temp_change_threshold cfg) (PInt 3))
                       then (if delta > 0 then s_sig_rise else s_sig_fall)
                       else if \<bar>delta\<bar> > 15 / 10
                       then (if delta > 0 then s_slight_rise else s_slight_fall)
                       else s_stable)
               \<and> map_option num_val (tt_max_temp_change r)
                   = Some (if exact then delta
                           else rnd (of_int (round_half_even (delta * 10)) / 10))"
    if run: "analyze_temperature_trend cfg tom historical = Inr r" for r
  proof -
    have mins: "\<exists>h \<in> set historical. temp_min h \<noteq> None"
    proof (rule ccontr)
      assume "\<not> ?thesis"
      then have "\<forall>h \<in> set historical. temp_min h = None" by blast
      from trend_without_min [OF assms(1) this] run show False by simp
    qed
    have "temp_min tom \<noteq> None"
    proof
      assume "temp_min tom = None"
      with trend_missing_key [OF assms(1) mins, of tom cfg] run assms(2) show False by simp
    qed
    then obtain tmin where tmin: "temp_min tom = Some tmin" by blast
    from trend_full [OF assms(1) mins assms(2) tmin, of cfg] run
    obtain avg_max where avg: "statistics_mean ?maxes = Inr avg_max"
      and tr: "tt_trend r = Some (trend_label cfg (num_sub tmax avg_max))"
      and ch: "tt_max_temp_change r = Some (py_round1 (num_sub tmax avg_max))"
      by auto
    have w: "is_int avg_max \<longleftrightarrow> whole"
      using statistics_mean_is_int [OF avg] by (simp add: whole_def mu_def)
    have m: "num_val avg_max = mean"
      using statistics_mean_value [OF avg, unfolded Let_def]
      unfolding mean_def whole_def mu_def .
    have d: "num_val (num_sub tmax avg_max) = delta"
      by (simp add: num_sub_value w m delta_def exact_def)
    have e: "is_int (num_sub tmax avg_max) \<longleftrightarrow> exact"
      by (simp add: is_int_num_sub w exact_def)
    show ?thesis
      by (simp add: tr ch trend_label_def d e py_round1_value)
  qed
  show ?thesis
    unfolding Let_def mu_def [symmetric] whole_def [symmetric] mean_def [symmetric]
      exact_def [symmetric] delta_def [symmetric]
    using label total by blast
qed

theorem trend_label_by_computed_delta_witness:
  "(\<exists>h \<in> set [day_with (PInt 20) (PInt 14)]. temp_max h \<noteq> None)
   \<and> temp_max (day_with (py_float (2304 / 100)) (PInt 15)) = Some (py_float (2304 / 100))
   \<and> (\<exists>r. analyze_temperature_trend default_config (day_with (py_float (2304 / 100)) (PInt 15))
             [day_with (PInt 20) (PInt 14)] = Inr r
          \<and> tt_trend r = Some s_sig_rise
          \<and> map_option num_val (tt_max_temp_change r) = Some 3)"
proof -
  have lit: "py_float (2304 / 100) = PFloat (6485183463413514 / 2 ^ 48)"
    by (simp add: py_float_def rnd_eval)
  have d: "rnd (427841964600197 / 140737488355328) = 427841964600197 / 140737488355328"
    by (simp add: rnd_eval)
  have r: "rnd (real_of_int (round_half_even (2139209823000985 / 70368744177664)) / 10) = 3"
    by (simp add: rnd_eval)
  from trend_label_by_computed_delta [of "[day_with (PInt 20) (PInt 14)]"
      "day_with (py_float (2304 / 100)) (PInt 15)" "py_float (2304 / 100)" default_config]
  show ?thesis
    unfolding lit
    by (auto simp add: day_with_def empty_record_def default_config_def Let_def
        List.map_filter_simps d r)
qed


section \<open>The outcome of the analysis\<close>

lemma clothing_ignores_apparent:
  "get_clothing_suggestion tmax tmin a = get_clothing_suggestion tmax tmin b"
  by (simp add: get_clothing_suggestion_def)

lemma clothing_error_iff:
  "get_clothing_suggestion tmax tmin a = Inl e
     \<longleftrightarrow> e = ValueError \<and> rnd (tmax - tmin) \<ge> 12 \<and> tmax \<ge> 20"
  by (auto simp add: get_clothing_suggestion_def Let_def)

lemma clothing_total:
  "\<not> (rnd (tmax - tmin) \<ge> 12 \<and> tmax \<ge> 20)
     \<Longrightarrow> \<exists>s. get_clothing_suggestion tmax tmin a = Inr s"
  by (auto simp add: get_clothing_suggestion_def Let_def)

lemma analyze_comfort_total:
  assumes "temp_max tom = Some tmax" and "temp_min tom = Some tmin"
  shows "\<exists>cf. analyze_comfort tom historical = Inr cf"
  using assms by (simp add: analyze_comfort_def Let_def)

lemma analyze_comfort_missing:
  assumes "temp_max tom = None \<or> temp_min tom = None"
  shows "analyze_comfort tom historical =
    Inl (KeyError (if temp_max tom = None then ''temp_max'' else ''temp_min''))"
  using assms by (cases "temp_max tom") (auto simp add: analyze_comfort_def)

lemma trend_total:
  assumes "\<not> mean_fails historical"
    and "temp_max tom = Some tmax" and "temp_min tom = Some tmin"
  shows "\<exists>tt. analyze_temperature_trend cfg tom historical = Inr tt"
proof (cases "\<exists>h \<in> set historical. temp_max h \<noteq> None")
  case True
  with assms(1) have "\<exists>h \<in> set historical. temp_min h \<noteq> None"
    by (auto simp add: mean_fails_def)
  from trend_full [OF True this assms(2,3)] show ?thesis by blast
next
  case False
  then show ?thesis by (simp add: trend_without_max)
qed

lemma simple_report_present:
  assumes "temp_max tom = Some tmax" and "temp_min tom = Some tmin"
  shows "analyze_weather_trend cfg tom [] =
    ebind (get_clothing_suggestion (num_val tmax) (num_val tmin) (num_val tmax)) (\<lambda>cl.
      Inr \<lparr>tomorrow = tom,
           temperature_trend = empty_trend\<lparr>tt_trend := Some s_no_history\<rparr>,
           precipitation_trend = None, comfort_analysis = None, weather_warnings = [],
           suggestions = Some \<lparr>clothing = cl, activity = s_no_suggestion,
                                health = s_watch_weather\<rparr>\<rparr>)"
  using assms by (simp add: analyze_weather_trend_def generate_simple_report_def)

lemma full_report_present:
  assumes "historical \<noteq> []"
    and "analyze_temperature_trend cfg tom historical = Inr tt"
    and "temp_max tom = Some tmax" and "temp_min tom = Some tmin"
  shows "\<exists>cf ws. analyze_comfort tom historical = Inr cf
    \<and> check_warnings cfg tom historical = Inr ws
    \<and> analyze_weather_trend cfg tom historical =
        ebind (get_clothing_suggestion (num_val tmax) (num_val tmin)
                 (num_val (cf_apparent_temp cf))) (\<lambda>cl.
          Inr \<lparr>tomorrow = tom, temperature_trend = tt,
               precipitation_trend = Some (analyze_precipitation tom historical),
               comfort_analysis = Some cf, weather_warnings = ws,
               suggestions = Some
                 \<lparr>clothing = cl,
                  activity = get_activity_suggestion (dict_get (weather tom) [])
                     (cf_comfort_level cf)
                     (num_val (dict_get (precipitation_probability tom) (PInt 0))),
                  health = get_health_suggestion (dict_get (tt_trend tt) [])
                     (num_val tmax) (num_val tmin)\<rparr>\<rparr>)"
proof -
  obtain cf where cf: "analyze_comfort tom historical = Inr cf"
    using analyze_comfort_total [OF assms(3,4)] by blast
  obtain ws where ws: "check_warnings cfg tom historical = Inr ws"
    using check_warnings_present [OF assms(3,4)] by blast
  have "analyze_weather_trend cfg tom historical =
        ebind (get_clothing_suggestion (num_val tmax) (num_val tmin)
                 (num_val (cf_apparent_temp cf))) (\<lambda>cl.
          Inr \<lparr>tomorrow = tom, temperature_trend = tt,
               precipitation_trend = Some (analyze_precipitation tom historical),
               comfort_analysis = Some cf, weather_warnings = ws,
               suggestions = Some
                 \<lparr>clothing = cl,
                  activity = get_activity_suggestion (dict_get (weather tom) [])
                     (cf_comfort_level cf)
                     (num_val (dict_get (precipitation_probability tom) (PInt 0))),
                  health = get_health_suggestion (dict_get (tt_trend tt) [])
                     (num_val tmax) (num_val tmin)\<rparr>\<rparr>)"
    using assms cf ws
    by (cases "get_clothing_suggestion (num_val tmax) (num_val tmin)
                 (num_val (cf_apparent_temp cf))")
       (simp_all add: analyze_weather_trend_def generate_suggestions_def Let_def)
  with cf ws show ?thesis by blast
qed

text \<open>The outcome of the analysis when a required temperature is missing.\<close>

lemma analyze_missing_key:
  assumes "temp_max tom = None \<or> temp_min tom = None"
  shows "analyze_weather_trend cfg tom historical =
    (if mean_fails historical then Inl StatisticsError
     else Inl (KeyError (if temp_max tom = None then ''temp_max'' else ''temp_min'')))"
proof (cases "historical = []")
  case True
  then show ?thesis
    using assms
    by (cases "temp_max tom")
       (auto simp add: analyze_weather_trend_def generate_simple_report_def mean_fails_def)
next
  case ne: False
  show ?thesis
  proof (cases "\<exists>h \<in> set historical. temp_max h \<noteq> None")
    case no_max: False
    then have "analyze_temperature_trend cfg tom historical = Inr empty_trend"
      by (simp add: trend_without_max)
    then show ?thesis
      using ne no_max analyze_comfort_missing [OF assms, of historical]
      by (simp add: analyze_weather_trend_def mean_fails_def)
  next
    case has_max: True
    show ?thesis
    proof (cases "\<exists>h \<in> set historical. temp_min h \<noteq> None")
      case True
      from trend_missing_key [OF has_max True assms, of cfg] show ?thesis
        using ne True by (simp add: analyze_weather_trend_def mean_fails_def)
    next
      case False
      then have "\<forall>h \<in> set historical. temp_min h = None" by blast
      from trend_without_min [OF has_max this, of cfg tom] show ?thesis
        using ne has_max False by (simp add: analyze_weather_trend_def mean_fails_def)
    qed
  qed
qed

text \<open>The clothing text of the analysis, or the error, when both temperatures are present.\<close>

lemma analyze_clothing_outcome:
  assumes "temp_max tom = Some tmax" and "temp_min tom = Some tmin"
  shows "map_sum id clothing_of
           (analyze_weather_trend cfg tom historical) =
    (if mean_fails historical then Inl StatisticsError
     else map_sum id Some (get_clothing_suggestion (num_val tmax) (num_val tmin) 0))"
proof (cases "historical = []")
  case True
  then show ?thesis
    using clothing_ignores_apparent [of "num_val tmax" "num_val tmin" "num_val tmax" 0]
    by (cases "get_clothing_suggestion (num_val tmax) (num_val tmin) 0")
       (simp_all add: simple_report_present [OF assms] mean_fails_def clothing_of_def)
next
  case ne: False
  show ?thesis
  proof (cases "mean_fails historical")
    case True
    then have "analyze_temperature_trend cfg tom historical = Inl StatisticsError"
      by (simp add: mean_fails_def trend_without_min)
    then show ?thesis
      using ne True by (simp add: analyze_weather_trend_def)
  next
    case False
    from trend_total [OF False assms] obtain tt
      where "analyze_temperature_trend cfg tom historical = Inr tt" by blast
    from full_report_present [OF ne this assms] obtain cf where
      "analyze_weather_trend cfg tom historical =
        ebind (get_clothing_suggestion (num_val tmax) (num_val tmin)
                 (num_val (cf_apparent_temp cf))) (\<lambda>cl.
          Inr \<lparr>tomorrow = tom, temperature_trend = tt,
               precipitation_trend = Some (analyze_precipitation tom historical),
               comfort_analysis = Some cf,
               weather_warnings = projr (check_warnings cfg tom historical),
               suggestions = Some
                 \<lparr>clothing = cl,
                  activity = get_activity_suggestion (dict_get (weather tom) [])
                     (cf_comfort_level cf)
                     (num_val (dict_get (precipitation_probability tom) (PInt 0))),
                  health = get_health_suggestion (dict_get (tt_trend tt) [])
                     (num_val tmax) (num_val tmin)\<rparr>\<rparr>)"
      by auto
    then show ?thesis
      using False
        clothing_ignores_apparent [of "num_val tmax" "num_val tmin" "num_val (cf_apparent_temp cf)" 0]
      by (cases "get_clothing_suggestion (num_val tmax) (num_val tmin) 0")
         (simp_all add: clothing_of_def)
  qed
qed


text \<open>
  The degenerate analysis, wherever the clothing text can be formatted.
\<close>

lemma degenerate_analysis:
  assumes "temp_max tom = Some tmax" and "temp_min tom = Some tmin"
    and "\<not> (rnd (num_val tmax - num_val tmin) \<ge> 12 \<and> num_val tmax \<ge> 20)"
  shows "\<exists>a cl. analyze_weather_trend cfg tom [] = Inr a
    \<and> tt_trend (temperature_trend a) = Some s_no_history
    \<and> weather_warnings a = []
    \<and> get_clothing_suggestion (num_val tmax) (num_val tmin) (num_val tmax) = Inr cl
    \<and> clothing_of a = Some cl"
proof -
  from clothing_total [OF assms(3)] obtain cl
    where "get_clothing_suggestion (num_val tmax) (num_val tmin) (num_val tmax) = Inr cl"
    by blast
  then show ?thesis
    by (simp add: simple_report_present [OF assms(1,2)] clothing_of_def empty_trend_def)
qed

text \<open>
  C1. A forecast with both temperatures and an empty history should give the degenerate
  analysis, as \<open>degenerate_analysis\<close> shows for every forecast whose clothing text can be
  formatted. For the forecast with maximum 30 and minimum 15 the analysis raises
  \<^verbatim>\<open>ValueError\<close> instead: the diurnal range is at least 12 and the maximum at least 20,
  which selects the midday tip with the malformed format specifier of line 231.
\<close>

theorem degenerate_analysis_raises:
  "analyze_weather_trend default_config (day_with (PInt 30) (PInt 15)) [] = Inl ValueError"
  by (simp add: analyze_weather_trend_def generate_simple_report_def
      get_clothing_suggestion_def day_with_def empty_record_def rnd_eval)

text \<open>
  C5. A historical record without a maximum or a minimum should only be left out of the mean
  and the standard deviation. For a history of one record that has a maximum and no
  minimum, the list of minima is empty, \<^verbatim>\<open>statistics.mean\<close> raises
  \<^verbatim>\<open>StatisticsError\<close>, and the whole analysis is aborted: line 52 guards the empty list
  of maxima, and nothing guards the empty list of minima. Over a history of a record without
  a maximum and a well-formed record, the analysis of the forecast with maximum 30 and
  minimum 15 is aborted by the \<^verbatim>\<open>ValueError\<close> of line 231.
\<close>

theorem malformed_record_aborts_analysis:
  "analyze_weather_trend default_config (day_with (PInt 22) (PInt 15))
     [empty_record\<lparr>date := Some example_date, temp_max := Some (PInt 20)\<rparr>]
   = Inl StatisticsError
   \<and> analyze_weather_trend default_config (day_with (PInt 30) (PInt 15))
     [empty_record\<lparr>date := Some example_date, temp_min := Some (PInt 16)\<rparr>,
      day_with (PInt 28) (PInt 16)]
   = Inl ValueError"
  by (simp add: analyze_weather_trend_def analyze_temperature_trend_def statistics_mean_def
      analyze_comfort_def check_warnings_def generate_suggestions_def
      get_clothing_suggestion_def List.map_filter_simps Let_def
      day_with_def empty_record_def default_config_def rnd_eval)

text \<open>
  A record without either temperature has no influence on the temperature trend: it is
  left out of both lists.
\<close>

lemma trend_ignores_record_without_temperatures:
  assumes "temp_max r = None" and "temp_min r = None"
  shows "analyze_temperature_trend cfg tom (before @ r # after)
    = analyze_temperature_trend cfg tom (before @ after)"
proof -
  have "List.map_filter f (before @ r # after) = List.map_filter f (before @ after)"
    if "f r = None" for f :: "forecast \<Rightarrow> pynum option"
    using that by (simp add: List.map_filter_def)
  with assms show ?thesis
    by (simp add: analyze_temperature_trend_def)
qed

text \<open>
  With both temperatures present the analysis returns, unless the mean of the minima fails
  or the clothing text cannot be formatted.
\<close>

lemma analyze_total:
  assumes "temp_max tom = Some tmax" and "temp_min tom = Some tmin"
    and "\<not> mean_fails historical"
    and "\<not> (rnd (num_val tmax - num_val tmin) \<ge> 12 \<and> num_val tmax \<ge> 20)"
  shows "\<exists>a. analyze_weather_trend cfg tom historical = Inr a"
proof -
  from clothing_total [OF assms(4)] obtain cl
    where "get_clothing_suggestion (num_val tmax) (num_val tmin) 0 = Inr cl" by blast
  with analyze_clothing_outcome [OF assms(1,2), of cfg historical] assms(3)
  show ?thesis
    by (cases "analyze_weather_trend cfg tom historical") simp_all
qed

text \<open>
  C8. The analysis should fail only when tomorrow's maximum or minimum is absent (where
  it does fail, see \<open>analyze_missing_key\<close>). With both present it still fails on two
  inputs: with \<^verbatim>\<open>ValueError\<close> for maximum 30 and minimum 15 over a well-formed
  history (the malformed format specifier of line 231), and with
  \<^verbatim>\<open>StatisticsError\<close> over a history whose records have maxima and no minimum.
\<close>

theorem analysis_fails_with_both_temperatures:
  "analyze_weather_trend default_config (day_with (PInt 30) (PInt 15))
     [day_with (PInt 28) (PInt 16)] = Inl ValueError
   \<and> analyze_weather_trend default_config (day_with (PInt 24) (PInt 17))
     [empty_record\<lparr>temp_max := Some (PInt 25)\<rparr>, empty_record\<lparr>temp_max := Some (PInt 23)\<rparr>]
     = Inl StatisticsError"
  by (simp add: analyze_weather_trend_def analyze_temperature_trend_def statistics_mean_def
      analyze_comfort_def check_warnings_def generate_suggestions_def
      get_clothing_suggestion_def List.map_filter_simps Let_def
      day_with_def empty_record_def default_config_def rnd_eval)

text \<open>
  C9. Two forecasts that agree on the values of the maximum and the minimum (or both lack
  one) get the same clothing outcome from the analysis over the same history, whatever
  their other fields are: the same clothing text, or the same error. Whenever two analyses
  of such forecasts return, over any histories and configurations, their clothing texts
  are equal.
\<close>

theorem clothing_depends_on_temperatures_only:
  assumes "map_option num_val (temp_max t1) = map_option num_val (temp_max t2)"
    and "map_option num_val (temp_min t1) = map_option num_val (temp_min t2)"
  shows "map_sum id clothing_of (analyze_weather_trend cfg t1 historical)
       = map_sum id clothing_of (analyze_weather_trend cfg t2 historical)
    \<and> (\<forall>cfg' historical' a1 a2.
          analyze_weather_trend cfg t1 historical = Inr a1
          \<and> analyze_weather_trend cfg' t2 historical' = Inr a2
          \<longrightarrow> clothing_of a1 = clothing_of a2)"
proof (cases "temp_max t1 = None \<or> temp_min t1 = None")
  case True
  with assms have t2: "temp_max t2 = None \<or> temp_min t2 = None"
    and same: "(temp_max t1 = None) = (temp_max t2 = None)"
    by auto
  show ?thesis
    by (simp add: analyze_missing_key [OF True] analyze_missing_key [OF t2] same)
next
  case False
  then obtain mx1 mn1 where p1: "temp_max t1 = Some mx1" "temp_min t1 = Some mn1"
    by auto
  from assms(1) p1(1) have "\<exists>mx2. temp_max t2 = Some mx2 \<and> num_val mx2 = num_val mx1"
    by (cases "temp_max t2") simp_all
  moreover from assms(2) p1(2)
  have "\<exists>mn2. temp_min t2 = Some mn2 \<and> num_val mn2 = num_val mn1"
    by (cases "temp_min t2") simp_all
  ultimately obtain mx2 mn2 where p2: "temp_max t2 = Some mx2" "temp_min t2 = Some mn2"
    and v: "num_val mx2 = num_val mx1" "num_val mn2 = num_val mn1"
    by blast
  have first: "map_sum id clothing_of (analyze_weather_trend cfg t1 historical)
       = map_sum id clothing_of (analyze_weather_trend cfg t2 historical)"
    by (simp add: analyze_clothing_outcome [OF p1] analyze_clothing_outcome [OF p2] v)
  have second: "clothing_of a1 = clothing_of a2"
    if r: "analyze_weather_trend cfg t1 historical = Inr a1"
      "analyze_weather_trend cfg' t2 historical' = Inr a2"
    for cfg' historical' a1 a2
  proof -
    from analyze_clothing_outcome [OF p1, of cfg historical] r(1)
    have "map_sum id Some (get_clothing_suggestion (num_val mx1) (num_val mn1) 0)
        = Inr (clothing_of a1)"
      by (simp split: if_splits)
    moreover from analyze_clothing_outcome [OF p2, of cfg' historical'] r(2)
    have "map_sum id Some (get_clothing_suggestion (num_val mx1) (num_val mn1) 0)
        = Inr (clothing_of a2)"
      by (simp add: v split: if_splits)
    ultimately show ?thesis by simp
  qed
  from first second show ?thesis by blast
qed

theorem clothing_depends_on_temperatures_only_witness:
  "map_option num_val (temp_max (day_with (PInt 22) (PInt 12)))
     = map_option num_val (temp_max (day_with (PFloat 22) (PInt 12)
         \<lparr>humidity := Some (PInt 90), weather := Some s_rain,
          precipitation_probability := Some (PFloat 80), wind_scale := Some [51]\<rparr>))
   \<and> map_option num_val (temp_min (day_with (PInt 22) (PInt 12)))
     = map_option num_val (temp_min (day_with (PFloat 22) (PInt 12)
         \<lparr>humidity := Some (PInt 90), weather := Some s_rain,
          precipitation_probability := Some (PFloat 80), wind_scale := Some [51]\<rparr>))
   \<and> map_sum id clothing_of
        (analyze_weather_trend default_config (day_with (PInt 22) (PInt 12))
           [day_with (PInt 21) (PInt 13)])
     = map_sum id clothing_of
        (analyze_weather_trend default_config (day_with (PFloat 22) (PInt 12)
           \<lparr>humidity := Some (PInt 90), weather := Some s_rain,
            precipitation_probability := Some (PFloat 80), wind_scale := Some [51]\<rparr>)
           [day_with (PInt 21) (PInt 13)])"
  using clothing_depends_on_temperatures_only [of "day_with (PInt 22) (PInt 12)"
      "day_with (PFloat 22) (PInt 12)
         \<lparr>humidity := Some (PInt 90), weather := Some s_rain,
          precipitation_probability := Some (PFloat 80), wind_scale := Some [51]\<rparr>"
      default_config "[day_with (PInt 21) (PInt 13)]"]
  by (simp add: day_with_def empty_record_def)


section \<open>The report\<close>

lemma round_half_even_close: "\<bar>of_int (round_half_even y) - y\<bar> \<le> 1 / 2"
proof -
  have "of_int \<lfloor>y\<rfloor> \<le> y" "y < of_int \<lfloor>y\<rfloor> + 1" by linarith+
  then show ?thesis
    by (simp add: round_half_even_def Let_def abs_le_iff)
qed

lemma round_half_even_nonneg:
  assumes "0 \<le> y" shows "0 \<le> round_half_even y"
proof -
  from assms have "0 \<le> \<lfloor>y\<rfloor>" by simp
  then show ?thesis by (simp add: round_half_even_def Let_def)
qed

lemma digits_of_are_digits: "c \<in> set (digits_of n) \<Longrightarrow> 48 \<le> c \<and> c \<le> 57"
proof (induction n arbitrary: c rule: digits_of.induct)
  case (1 n)
  show ?case
  proof (cases "n < 10")
    case True
    with "1.prems" show ?thesis by (simp add: digits_of.simps [of n])
  next
    case False
    with "1.prems" have "c \<in> set (digits_of (n div 10)) \<or> c = 48 + n mod 10"
      by (auto simp add: digits_of.simps [of n])
    then show ?thesis
    proof
      assume "c \<in> set (digits_of (n div 10))"
      with "1.IH" [OF False] show ?thesis by blast
    next
      assume "c = 48 + n mod 10"
      then show ?thesis by simp
    qed
  qed
qed

lemma fmt_f1_shape:
  "\<exists>n d. fmt_f1 p x = fmt_sign p x @ digits_of n @ [46, 48 + d] \<and> d < 10
     \<and> \<bar>real n + real d / 10 - \<bar>x\<bar>\<bar> \<le> 1 / 20"
proof -
  define q where "q = nat (round_half_even (\<bar>x\<bar> * 10))"
  have nn: "0 \<le> round_half_even (\<bar>x\<bar> * 10)"
    by (rule round_half_even_nonneg) simp
  then have rq: "real q = of_int (round_half_even (\<bar>x\<bar> * 10))"
    by (simp add: q_def)
  have eq: "real (q div 10) + real (q mod 10) / 10 = real q / 10"
  proof -
    have "real (q div 10 * 10 + q mod 10) = real q"
      by (simp only: div_mult_mod_eq)
    then have "real (q div 10) * 10 + real (q mod 10) = real q"
      by (simp only: of_nat_add of_nat_mult of_nat_numeral)
    then show ?thesis by (simp add: field_simps)
  qed
  have b: "\<bar>real q / 10 - \<bar>x\<bar>\<bar> \<le> 1 / 20"
    using round_half_even_close [of "\<bar>x\<bar> * 10"] rq by (simp add: field_simps abs_le_iff)
  have "\<bar>real (q div 10) + real (q mod 10) / 10 - \<bar>x\<bar>\<bar> \<le> 1 / 20"
    unfolding eq by (rule b)
  moreover have "fmt_f1 p x = fmt_sign p x @ digits_of (q div 10) @ [46, 48 + q mod 10]"
    by (simp add: fmt_f1_def q_def Let_def)
  moreover have "q mod 10 < 10" by simp
  ultimately show ?thesis by blast
qed

lemma format_report_present:
  assumes "header_section (tomorrow a) = Inr h"
  shows "format_report now a =
     Inr (h @ trend_section (temperature_trend a)
            @ precip_section (precipitation_trend a)
            @ comfort_section (comfort_analysis a)
            @ warnings_section (weather_warnings a)
            @ suggestions_section (suggestions a)
            @ footer_a @ strftime now @ footer_b)"
  using assms by (simp add: format_report_def footer_def)

lemma format_report_error:
  assumes "header_section (tomorrow a) = Inl e"
  shows "format_report now a = Inl e"
  using assms by (simp add: format_report_def)

lemma header_section_Inr:
  assumes "header_section tom = Inr h"
  shows "\<exists>d tmin tmax. date tom = Some d \<and> temp_min tom = Some tmin \<and> temp_max tom = Some tmax
    \<and> h = (header_a @ d @ header_b @ dict_get (weather tom) s_unknown)
            @ header_c @ py_str tmin @ header_d @ py_str tmax @ header_e
            @ (dict_get (map_option py_str (humidity tom)) [45]
                 @ header_f @ dict_get (wind_scale tom) [45] @ header_g)"
  using assms
  by (cases "date tom"; cases "temp_min tom"; cases "temp_max tom")
     (simp_all add: header_section_def)

text \<open>
  C6. Rendering the same analysis twice does not always give the same text: the footer
  holds the time of generation, so two renderings one second apart differ.
\<close>

theorem report_differs_by_clock_counterexample:
  "daily_report default_config clock_a (day_with (PInt 23) (PInt 18)) []
   \<noteq> daily_report default_config clock_b (day_with (PInt 23) (PInt 18)) []"
  by (simp add: daily_report_def analyze_weather_trend_def generate_simple_report_def
      get_clothing_suggestion_def format_report_def header_section_def footer_def
      strftime_def pad2_def pad4_def digits_of.simps clock_a_def clock_b_def
      day_with_def empty_record_def rnd_eval)

text \<open>
  C6, as amended. The report is a function of the analysis and of the reading of the clock:
  two renderings of one analysis are equal exactly when the formatted readings are equal
  (or the header raises, in both), and when the header does not raise they share all of
  the text before the time of generation. The analysis and the suggestions take no clock at
  all: they are functions of their arguments.
\<close>

theorem report_same_up_to_clock:
  "(format_report now1 a = format_report now2 a)
     = (strftime now1 = strftime now2 \<or> (\<exists>e. format_report now1 a = Inl e))
   \<and> ((\<forall>e. format_report now1 a \<noteq> Inl e) \<longrightarrow>
        (\<exists>body. \<forall>now. format_report now a = Inr (body @ strftime now @ footer_b)))"
proof (cases "header_section (tomorrow a)")
  case (Inl e)
  then show ?thesis by (simp add: format_report_error)
next
  case (Inr h)
  let ?body = "h @ trend_section (temperature_trend a)
            @ precip_section (precipitation_trend a)
            @ comfort_section (comfort_analysis a)
            @ warnings_section (weather_warnings a)
            @ suggestions_section (suggestions a)
            @ footer_a"
  have run: "format_report now a = Inr (?body @ strftime now @ footer_b)" for now
    by (simp add: format_report_present [OF Inr])
  then have "(format_report now1 a = format_report now2 a) = (strftime now1 = strftime now2)"
    by simp
  moreover have "\<exists>body. \<forall>now. format_report now a = Inr (body @ strftime now @ footer_b)"
    using run by blast
  ultimately show ?thesis by (simp add: run)
qed

theorem report_same_up_to_clock_witness:
  "(\<forall>e. format_report clock_a bare_analysis \<noteq> Inl e)
   \<and> format_report clock_a bare_analysis \<noteq> format_report clock_b bare_analysis
   \<and> (\<exists>body. \<forall>now. format_report now bare_analysis = Inr (body @ strftime now @ footer_b))"
proof -
  have ok: "\<forall>e. format_report clock_a bare_analysis \<noteq> Inl e"
    by (simp add: format_report_def header_section_def bare_analysis_def day_with_def
        empty_record_def)
  have clocks: "strftime clock_a \<noteq> strftime clock_b"
    by (simp add: strftime_def pad2_def pad4_def digits_of.simps clock_a_def clock_b_def)
  from report_same_up_to_clock [of clock_a bare_analysis clock_b] ok clocks
  show ?thesis by blast
qed

text \<open>
  C7. Not every temperature of the report has one decimal: for the forecast with maximum
  23.456 and minimum 18 the header reads "18" and "23.456", and the text "23.5" occurs
  nowhere in the report.
\<close>

theorem report_numbers_counterexample:
  "case daily_report default_config clock_a (day_with (py_float (23456 / 1000)) (PInt 18)) [] of
     Inl e \<Rightarrow> False
   | Inr r \<Rightarrow>
       py_in (header_c @ [49, 56] @ header_d @ [50, 51, 46, 52, 53, 54] @ header_e) r
       \<and> \<not> py_in [50, 51, 46, 53] r"
proof -
  define x where "x = py_float (23456 / 1000)"
  have tmax: "py_str x = [50, 51, 46, 52, 53, 54]"
    unfolding x_def by (rule str_float_examples)
  have warm: "get_clothing_suggestion (num_val x) 18 (num_val x) = Inr clothing_band6"
    unfolding x_def
    by (simp add: get_clothing_suggestion_def morning_clothing_def py_float_def rnd_eval)
  have "case daily_report default_config clock_a (day_with x (PInt 18)) [] of
     Inl e \<Rightarrow> False
   | Inr r \<Rightarrow>
       py_in (header_c @ [49, 56] @ header_d @ [50, 51, 46, 52, 53, 54] @ header_e) r
       \<and> \<not> py_in [50, 51, 46, 53] r"
    by (simp add: daily_report_def analyze_weather_trend_def generate_simple_report_def
      warm tmax format_report_def header_section_def
      trend_section_def trend_nonempty_def empty_trend_def precip_section_def
      comfort_section_def warnings_section_def suggestions_section_def footer_def
      strftime_def pad2_def pad4_def digits_of.simps str_int_def
      fmt_f1_def fmt_sign_def round_half_even_def Let_def
      clock_a_def day_with_def empty_record_def example_date_def
      header_a_def header_b_def header_c_def header_d_def header_e_def header_f_def
      header_g_def trend_sec_a_def trend_sec_b_def trend_sec_c_def trend_sec_d_def
      trend_sec_e_def trend_sec_f_def sugg_sec_a_def sugg_sec_b_def sugg_sec_c_def
      sugg_sec_d_def footer_a_def footer_b_def s_unknown_def s_no_history_def
      s_no_suggestion_def s_watch_weather_def clothing_band6_def)
  then show ?thesis unfolding x_def .
qed

text \<open>
  C7, as amended. In a rendered report the header prints tomorrow's minimum and maximum
  as \<^verbatim>\<open>str\<close> of the stored values, and the precipitation section prints the probability
  as \<^verbatim>\<open>str\<close> of the stored value and the count of rainy days as an integer. The four numbers of the temperature trend section
  (the change of the maximum and of the minimum against the recent mean, tomorrow's diurnal
  range and the mean historical range) are printed with the format \<^verbatim>\<open>.1f\<close>: an
  optional sign, decimal digits, a point and exactly one more digit, and the number so
  written is within 0.05 of the magnitude of the value, so it is rounded and not truncated;
  23.456 is printed as "23.5".
\<close>

theorem trend_numbers_one_decimal:
  assumes "format_report now a = Inr r"
  shows "(\<exists>tmin tmax before rest.
            temp_min (tomorrow a) = Some tmin \<and> temp_max (tomorrow a) = Some tmax
            \<and> r = before @ header_c @ py_str tmin @ header_d @ py_str tmax @ header_e @ rest)
    \<and> (trend_nonempty (temperature_trend a) \<longrightarrow>
         (\<exists>before rest. r =
            before @ trend_sec_b
              @ fmt_f1 True (num_val (dict_get (tt_max_temp_change (temperature_trend a)) (PInt 0)))
              @ trend_sec_c
              @ fmt_f1 True (num_val (dict_get (tt_min_temp_change (temperature_trend a)) (PInt 0)))
              @ trend_sec_d
              @ fmt_f1 False (num_val (dict_get (tt_tomorrow_diff (temperature_trend a)) (PInt 0)))
              @ trend_sec_e
              @ fmt_f1 False (num_val (dict_get (tt_avg_hist_diff (temperature_trend a)) (PInt 0)))
              @ trend_sec_f @ rest))
    \<and> (\<forall>pr. precipitation_trend a = Some pr \<longrightarrow>
         (\<exists>before rest. r =
            before @ precip_sec_a @ py_str (pr_probability pr) @ precip_sec_b @ pr_trend pr
              @ precip_sec_c @ str_int (pr_recent_rainy_days pr) @ precip_sec_d @ rest))
    \<and> (\<forall>p x. \<exists>n d. fmt_f1 p x = fmt_sign p x @ digits_of n @ [46, 48 + d]
           \<and> (\<forall>c \<in> set (digits_of n). 48 \<le> c \<and> c \<le> 57) \<and> d < 10
           \<and> \<bar>real n + real d / 10 - \<bar>x\<bar>\<bar> \<le> 1 / 20)
    \<and> fmt_f1 False (23456 / 1000) = [50, 51, 46, 53]"
proof -
  let ?tt = "temperature_trend a"
  let ?later = "precip_section (precipitation_trend a)
            @ comfort_section (comfort_analysis a)
            @ warnings_section (weather_warnings a)
            @ suggestions_section (suggestions a)
            @ footer_a @ strftime now @ footer_b"
  from assms obtain h where h: "header_section (tomorrow a) = Inr h"
    by (cases "header_section (tomorrow a)") (simp_all add: format_report_def)
  from format_report_present [OF h, of now] assms
  have r: "r = h @ trend_section ?tt @ ?later" by simp
  from header_section_Inr [OF h] obtain d tmin tmax where
    tmin: "temp_min (tomorrow a) = Some tmin" and tmax: "temp_max (tomorrow a) = Some tmax"
    and hd: "h = (header_a @ d @ header_b @ dict_get (weather (tomorrow a)) s_unknown)
            @ header_c @ py_str tmin @ header_d @ py_str tmax @ header_e
            @ (dict_get (map_option py_str (humidity (tomorrow a))) [45]
                 @ header_f @ dict_get (wind_scale (tomorrow a)) [45] @ header_g)"
    by blast
  have "r = (header_a @ d @ header_b @ dict_get (weather (tomorrow a)) s_unknown)
            @ header_c @ py_str tmin @ header_d @ py_str tmax @ header_e
            @ ((dict_get (map_option py_str (humidity (tomorrow a))) [45]
                 @ header_f @ dict_get (wind_scale (tomorrow a)) [45] @ header_g)
               @ trend_section ?tt @ ?later)"
    unfolding r hd by simp
  with tmin tmax have header: "\<exists>tmin tmax before rest.
            temp_min (tomorrow a) = Some tmin \<and> temp_max (tomorrow a) = Some tmax
            \<and> r = before @ header_c @ py_str tmin @ header_d @ py_str tmax @ header_e @ rest"
    by blast
  have trend: "\<exists>before rest. r =
            before @ trend_sec_b
              @ fmt_f1 True (num_val (dict_get (tt_max_temp_change ?tt) (PInt 0)))
              @ trend_sec_c
              @ fmt_f1 True (num_val (dict_get (tt_min_temp_change ?tt) (PInt 0)))
              @ trend_sec_d
              @ fmt_f1 False (num_val (dict_get (tt_tomorrow_diff ?tt) (PInt 0)))
              @ trend_sec_e
              @ fmt_f1 False (num_val (dict_get (tt_avg_hist_diff ?tt) (PInt 0)))
              @ trend_sec_f @ rest"
    if "trend_nonempty ?tt"
  proof -
    have "r = (h @ trend_sec_a @ dict_get (tt_trend ?tt) s_stable) @ trend_sec_b
              @ fmt_f1 True (num_val (dict_get (tt_max_temp_change ?tt) (PInt 0)))
              @ trend_sec_c
              @ fmt_f1 True (num_val (dict_get (tt_min_temp_change ?tt) (PInt 0)))
              @ trend_sec_d
              @ fmt_f1 False (num_val (dict_get (tt_tomorrow_diff ?tt) (PInt 0)))
              @ trend_sec_e
              @ fmt_f1 False (num_val (dict_get (tt_avg_hist_diff ?tt) (PInt 0)))
              @ trend_sec_f @ ?later"
      unfolding r using that by (simp add: trend_section_def)
    then show ?thesis by blast
  qed
  have precip: "\<exists>before rest. r =
            before @ precip_sec_a @ py_str (pr_probability pr) @ precip_sec_b @ pr_trend pr
              @ precip_sec_c @ str_int (pr_recent_rainy_days pr) @ precip_sec_d @ rest"
    if "precipitation_trend a = Some pr" for pr
  proof -
    have "r = (h @ trend_section ?tt) @ precip_sec_a @ py_str (pr_probability pr)
              @ precip_sec_b @ pr_trend pr @ precip_sec_c @ str_int (pr_recent_rainy_days pr)
              @ precip_sec_d
              @ (comfort_section (comfort_analysis a) @ warnings_section (weather_warnings a)
                   @ suggestions_section (suggestions a) @ footer_a @ strftime now @ footer_b)"
      unfolding r using that by (simp add: precip_section_def)
    then show ?thesis by blast
  qed
  have shape: "\<exists>n d. fmt_f1 p x = fmt_sign p x @ digits_of n @ [46, 48 + d]
           \<and> (\<forall>c \<in> set (digits_of n). 48 \<le> c \<and> c \<le> 57) \<and> d < 10
           \<and> \<bar>real n + real d / 10 - \<bar>x\<bar>\<bar> \<le> 1 / 20" for p x
    using fmt_f1_shape [of p x] digits_of_are_digits by blast
  have example: "fmt_f1 False (23456 / 1000) = [50, 51, 46, 53]"
    by (simp add: fmt_f1_def fmt_sign_def round_half_even_def digits_of.simps Let_def)
  from header trend precip shape example show ?thesis by blast
qed

theorem trend_numbers_one_decimal_witness:
  "\<exists>r. format_report clock_a trended_analysis = Inr r
     \<and> (\<exists>before rest. r =
            before @ trend_sec_b @ [43, 51, 46, 48] @ trend_sec_c @ [45, 48, 46, 52]
              @ trend_sec_d @ [53, 46, 53] @ trend_sec_e @ [54, 46, 50] @ trend_sec_f @ rest)
     \<and> (\<exists>before rest. r =
            before @ precip_sec_a @ [56, 48, 46, 48] @ precip_sec_b @ s_likely_rain
              @ precip_sec_c @ [50] @ precip_sec_d @ rest)"
proof -
  obtain r where r: "format_report clock_a trended_analysis = Inr r"
    by (simp add: format_report_def header_section_def trended_analysis_def bare_analysis_def
        day_with_def empty_record_def)
  have t: "trend_nonempty (temperature_trend trended_analysis)"
    by (simp add: trended_analysis_def bare_analysis_def trend_nonempty_def)
  have v: "fmt_f1 True (num_val (dict_get (tt_max_temp_change (temperature_trend trended_analysis)) (PInt 0))) = [43, 51, 46, 48]"
    "fmt_f1 True (num_val (dict_get (tt_min_temp_change (temperature_trend trended_analysis)) (PInt 0))) = [45, 48, 46, 52]"
    "fmt_f1 False (num_val (dict_get (tt_tomorrow_diff (temperature_trend trended_analysis)) (PInt 0))) = [53, 46, 53]"
    "fmt_f1 False (num_val (dict_get (tt_avg_hist_diff (temperature_trend trended_analysis)) (PInt 0))) = [54, 46, 50]"
    by (simp_all add: trended_analysis_def bare_analysis_def empty_trend_def py_float_def
        fmt_f1_def fmt_sign_def digits_of.simps rnd_eval)
  have p: "precipitation_trend trended_analysis =
      Some \<lparr>pr_probability = PFloat 80, pr_trend = s_likely_rain,
            pr_recent_rainy_days = 2, pr_weather_desc = s_unknown\<rparr>"
    by (simp add: trended_analysis_def bare_analysis_def)
  have s: "str_float 80 = [56, 48, 46, 48]" "str_int 2 = [50]"
    by (simp_all add: str_eval)
  from trend_numbers_one_decimal [OF r] t
  have "\<exists>before rest. r =
            before @ trend_sec_b @ [43, 51, 46, 48] @ trend_sec_c @ [45, 48, 46, 52]
              @ trend_sec_d @ [53, 46, 53] @ trend_sec_e @ [54, 46, 50] @ trend_sec_f @ rest"
    by (simp add: v)
  moreover from trend_numbers_one_decimal [OF r] p
  have "\<exists>before rest. r =
            before @ precip_sec_a @ [56, 48, 46, 48] @ precip_sec_b @ s_likely_rain
              @ precip_sec_c @ [50] @ precip_sec_d @ rest"
    by (simp add: s)
  ultimately show ?thesis using r by blast
qed


end
